theory Spec2Isabelle
  imports Complex_Main
begin

section \<open>Python values shared by the models\<close>

text \<open>
  Exceptions are values: every \<^verbatim>\<open>raise\<close> of the source is an \<open>Inl\<close> branch of the model.
  An f-string that interpolates a list keeps the list as a second component instead of
  rendering Python's \<^verbatim>\<open>repr\<close> of it.  Python \<^verbatim>\<open>float\<close> values are modelled as
  exact reals; \<^verbatim>\<open>datetime\<close> values as integer microseconds since the epoch.
\<close>

datatype exn =
    Exception string "string list"
  | ValidationException string string "string list"
  | ValueError string
  | KeyError string
  | TypeError string
  | AttributeError string
  | ZeroDivisionError

text \<open>A number or a string, as found in a dictionary that came from outside.\<close>

datatype pyval = Num real | Str string

text \<open>
  \<^verbatim>\<open>float(v)\<close>.  How Python reads a string as a float is a parameter: \<open>None\<close> stands for
  the \<^verbatim>\<open>ValueError\<close> it raises on a string that is no number.
\<close>

definition py_float :: "(string \<Rightarrow> real option) \<Rightarrow> pyval \<Rightarrow> exn + real" where
  "py_float float_of_string v =
     (case v of
        Num x \<Rightarrow> Inr x
      | Str s \<Rightarrow> (case float_of_string s of
                   None \<Rightarrow> Inl (ValueError ''could not convert string to float'')
                 | Some x \<Rightarrow> Inr x))"

text \<open>Truthiness of an optional string and of an optional value (\<^verbatim>\<open>if data.get(key)\<close>).\<close>

definition truthy_str :: "string option \<Rightarrow> bool" where
  "truthy_str v = (case v of None \<Rightarrow> False | Some s \<Rightarrow> s \<noteq> [])"


text \<open>\<^verbatim>\<open>str.zfill(width)\<close>: zeros go after a leading sign.\<close>

definition zfill :: "nat \<Rightarrow> string \<Rightarrow> string" where
  "zfill width s =
     (if width \<le> length s then s
      else (case s of
              [] \<Rightarrow> replicate width (CHR ''0'')
            | c # r \<Rightarrow>
                if c = CHR ''+'' \<or> c = CHR ''-''
                then c # replicate (width - length s) (CHR ''0'') @ r
                else replicate (width - length s) (CHR ''0'') @ s))"

section \<open>Rate limiting with a token bucket (src/api/middleware.py)\<close>

record TokenBucket =
  capacity :: int
  refill_rate :: real
  tokens :: real
  last_refill :: real

text \<open>\<^verbatim>\<open>TokenBucket.__init__\<close>; \<open>now\<close> is the reading of \<^verbatim>\<open>time.time()\<close>.\<close>

definition TokenBucket_init :: "int \<Rightarrow> real \<Rightarrow> real \<Rightarrow> TokenBucket" where
  "TokenBucket_init cap rate now =
     \<lparr>capacity = cap, refill_rate = rate, tokens = real_of_int cap, last_refill = now\<rparr>"

text \<open>\<^verbatim>\<open>TokenBucket._refill\<close>.\<close>

definition refill :: "TokenBucket \<Rightarrow> real \<Rightarrow> TokenBucket" where
  "refill b now =
     (let elapsed = now - last_refill b;
          tokens_to_add = elapsed * refill_rate b
      in b\<lparr>tokens := min (real_of_int (capacity b)) (tokens b + tokens_to_add),
            last_refill := now\<rparr>)"

text \<open>\<^verbatim>\<open>TokenBucket.consume(tokens)\<close>: refill first, then take \<open>n\<close> tokens if they are there.\<close>

definition consume :: "TokenBucket \<Rightarrow> int \<Rightarrow> real \<Rightarrow> bool \<times> TokenBucket" where
  "consume b n now =
     (let b' = refill b now
      in if tokens b' \<ge> real_of_int n
         then (True, b'\<lparr>tokens := tokens b' - real_of_int n\<rparr>)
         else (False, b'))"

text \<open>
  \<^verbatim>\<open>TokenBucket.get_wait_time\<close>.  It reads no clock and does not refill.  Python's float
  division by zero raises.
\<close>

definition get_wait_time :: "TokenBucket \<Rightarrow> exn + real" where
  "get_wait_time b =
     (if tokens b \<ge> 1 then Inr 0
      else if refill_rate b = 0 then Inl ZeroDivisionError
      else Inr ((1 - tokens b) / refill_rate b))"

record RateLimiter =
  buckets :: "string \<rightharpoonup> TokenBucket"
  requests_per_minute :: int
  rl_capacity :: int
  rl_refill_rate :: real

text \<open>\<^verbatim>\<open>RateLimiter.__init__\<close>: capacity is the per-minute budget, the rate is per second.\<close>

definition RateLimiter_init :: "int \<Rightarrow> RateLimiter" where
  "RateLimiter_init rpm =
     \<lparr>buckets = Map.empty, requests_per_minute = rpm,
      rl_capacity = rpm, rl_refill_rate = real_of_int rpm / 60\<rparr>"

text \<open>
  \<^verbatim>\<open>RateLimiter.is_allowed\<close>.  \<open>t_create\<close> is the clock reading taken by the bucket's
  constructor when the client is new (unused otherwise); \<open>t_now\<close> is the reading taken
  by the refill inside \<open>consume\<close>.
\<close>

definition is_allowed :: "RateLimiter \<Rightarrow> string \<Rightarrow> real \<Rightarrow> real \<Rightarrow> bool \<times> RateLimiter" where
  "is_allowed rl client_id t_create t_now =
     (let bucket = (case buckets rl client_id of
                      None \<Rightarrow> TokenBucket_init (rl_capacity rl) (rl_refill_rate rl) t_create
                    | Some b \<Rightarrow> b);
          r = consume bucket 1 t_now
      in (fst r, rl\<lparr>buckets := (buckets rl)(client_id \<mapsto> snd r)\<rparr>))"

text \<open>\<^verbatim>\<open>RateLimiter.get_retry_after\<close>.\<close>

definition get_retry_after :: "RateLimiter \<Rightarrow> string \<Rightarrow> exn + real" where
  "get_retry_after rl client_id =
     (case buckets rl client_id of
        None \<Rightarrow> Inr 0
      | Some b \<Rightarrow> get_wait_time b)"

text \<open>
  A run of \<open>is_allowed\<close> calls.  Each call names its client and carries the two clock
  readings it takes; the answers are collected in order.
\<close>

fun allow_all :: "RateLimiter \<Rightarrow> (string \<times> real \<times> real) list \<Rightarrow> bool list \<times> RateLimiter" where
  "allow_all rl [] = ([], rl)"
| "allow_all rl ((c, tc, tn) # cs) =
     (let r = is_allowed rl c tc tn;
          rest = allow_all (snd r) cs
      in (fst r # fst rest, snd rest))"

text \<open>The readings of a run, in the order the clock is read.\<close>

fun readings :: "(string \<times> real \<times> real) list \<Rightarrow> real list" where
  "readings [] = []"
| "readings ((c, tc, tn) # cs) = tc # tn # readings cs"

text \<open>Operations on one bucket, for runs that mix refills and withdrawals.\<close>

datatype bucket_op = Refill real | Consume int real

fun bucket_step :: "TokenBucket \<Rightarrow> bucket_op \<Rightarrow> TokenBucket" where
  "bucket_step b (Refill t) = refill b t"
| "bucket_step b (Consume n t) = snd (consume b n t)"

fun op_time :: "bucket_op \<Rightarrow> real" where
  "op_time (Refill t) = t"
| "op_time (Consume n t) = t"

fun op_amount :: "bucket_op \<Rightarrow> int" where
  "op_amount (Refill t) = 0"
| "op_amount (Consume n t) = n"

definition bucket_inv :: "TokenBucket \<Rightarrow> bool" where
  "bucket_inv b = (0 \<le> tokens b \<and> tokens b \<le> real_of_int (capacity b))"

text \<open>
  The limiter-wide invariant: every bucket is within its bounds, was last refilled no later
  than \<open>T\<close>, and refills at a non-negative rate.
\<close>

definition rl_inv :: "real \<Rightarrow> RateLimiter \<Rightarrow> bool" where
  "rl_inv T rl = (0 \<le> rl_capacity rl \<and> 0 \<le> rl_refill_rate rl \<and>
     (\<forall>c b. buckets rl c = Some b \<longrightarrow> bucket_inv b \<and> last_refill b \<le> T \<and> 0 \<le> refill_rate b))"

text \<open>
  One client on a clock that is set back by a minute between two requests.
\<close>

definition step_back :: "(string \<times> real \<times> real) list" where
  "step_back = [(''a'', 120, 120), (''a'', 60, 60)]"

text \<open>A concrete run with two clients, used to exercise the invariant.\<close>

definition burst2 :: "(string \<times> real \<times> real) list" where
  "burst2 = [(''a'', 0, 0), (''b'', 1, 2), (''a'', 2, 5 / 2)]"

text \<open>
  Whether a request made \<open>d\<close> seconds after the instant \<open>now\<close> finds a token, the bucket
  being left alone in between.
\<close>

definition token_available_after :: "TokenBucket \<Rightarrow> real \<Rightarrow> real \<Rightarrow> bool" where
  "token_available_after b now d = fst (consume b 1 (now + d))"

text \<open>A bucket that sixty requests at the instant 0 have emptied.\<close>

definition drained :: TokenBucket where
  "drained = \<lparr>capacity = 60, refill_rate = 1, tokens = 0, last_refill = 0\<rparr>"

section \<open>Circuit breaker (src/core/circuit_breaker.py)\<close>

datatype CircuitState = CLOSED | OPEN | HALF_OPEN

record CircuitBreaker =
  failure_threshold :: int
  timeout :: int
  failures :: int
  last_failure_time :: "int option"
  state :: CircuitState

text \<open>\<^verbatim>\<open>CircuitBreaker.__init__\<close>.\<close>

definition CircuitBreaker_init :: "int \<Rightarrow> int \<Rightarrow> CircuitBreaker" where
  "CircuitBreaker_init threshold tmo =
     \<lparr>failure_threshold = threshold, timeout = tmo, failures = 0,
      last_failure_time = None, state = CLOSED\<rparr>"

text \<open>\<^verbatim>\<open>sap_circuit_breaker = CircuitBreaker(failure_threshold=3, timeout=60)\<close>.\<close>

definition sap_circuit_breaker :: CircuitBreaker where
  "sap_circuit_breaker = CircuitBreaker_init 3 60"

text \<open>\<^verbatim>\<open>_on_success\<close>.\<close>

definition on_success :: "CircuitBreaker \<Rightarrow> CircuitBreaker" where
  "on_success cb = cb\<lparr>failures := 0, state := CLOSED\<rparr>"

text \<open>\<^verbatim>\<open>_on_failure\<close>; \<open>now\<close> is its reading of \<^verbatim>\<open>datetime.now()\<close>.\<close>

definition on_failure :: "CircuitBreaker \<Rightarrow> int \<Rightarrow> CircuitBreaker" where
  "on_failure cb now =
     (let cb1 = cb\<lparr>failures := failures cb + 1, last_failure_time := Some now\<rparr>
      in if failures cb1 \<ge> failure_threshold cb1 then cb1\<lparr>state := OPEN\<rparr> else cb1)"

text \<open>
  The \<^verbatim>\<open>seconds\<close> attribute of a \<^verbatim>\<open>timedelta\<close> of \<open>delta\<close> microseconds.  Python
  normalises a \<^verbatim>\<open>timedelta\<close> to days, seconds in \<open>[0, 86400)\<close> and microseconds in
  \<open>[0, 10\<^sup>6)\<close> by floor division; \<^verbatim>\<open>seconds\<close> is the middle component, not the total.
\<close>

definition timedelta_seconds :: "int \<Rightarrow> int" where
  "timedelta_seconds delta = (delta mod 86400000000) div 1000000"

text \<open>\<^verbatim>\<open>_should_attempt_reset\<close>; \<open>now\<close> is its reading of \<^verbatim>\<open>datetime.now()\<close>.\<close>

definition should_attempt_reset :: "CircuitBreaker \<Rightarrow> int \<Rightarrow> bool" where
  "should_attempt_reset cb now =
     (case last_failure_time cb of
        None \<Rightarrow> True
      | Some l \<Rightarrow> timedelta_seconds (now - l) \<ge> timeout cb)"

text \<open>
  \<^verbatim>\<open>CircuitBreaker.call\<close>.  The wrapped operation acts on a world \<open>'w\<close> and either raises
  or returns; a call that is refused leaves the world as it was, whatever the operation.
  \<open>now_reset\<close> and \<open>now_fail\<close> are the clock readings of \<open>should_attempt_reset\<close> and
  \<open>on_failure\<close>, when they are taken.
\<close>

definition call ::
  "CircuitBreaker \<Rightarrow> ('w \<Rightarrow> (exn + 'a) \<times> 'w) \<Rightarrow> 'w \<Rightarrow> int \<Rightarrow> int
     \<Rightarrow> (exn + 'a) \<times> CircuitBreaker \<times> 'w" where
  "call cb func w now_reset now_fail =
     (if state cb = OPEN \<and> \<not> should_attempt_reset cb now_reset
      then (Inl (Exception ''Circuit breaker is OPEN'' []), cb, w)
      else
        (let cb1 = (if state cb = OPEN then cb\<lparr>state := HALF_OPEN\<rparr> else cb)
         in case func w of
              (Inr result, w') \<Rightarrow> (Inr result, on_success cb1, w')
            | (Inl e, w') \<Rightarrow> (Inl e, on_failure cb1 now_fail, w')))"

text \<open>
  Two wrapped operations for concrete runs.  The world counts how often the operation
  was invoked.
\<close>

definition remote_down :: "nat \<Rightarrow> (exn + unit) \<times> nat" where
  "remote_down w = (Inl (Exception ''remote down'' []), Suc w)"

definition remote_up :: "nat \<Rightarrow> (exn + unit) \<times> nat" where
  "remote_up w = (Inr (), Suc w)"

text \<open>Calls made one after the other, each at one clock reading.\<close>

fun call_all ::
  "CircuitBreaker \<Rightarrow> 'w \<Rightarrow> (('w \<Rightarrow> (exn + 'a) \<times> 'w) \<times> int) list \<Rightarrow> CircuitBreaker \<times> 'w" where
  "call_all cb w [] = (cb, w)"
| "call_all cb w ((func, now) # cs) =
     (case call cb func w now now of (r, cb', w') \<Rightarrow> call_all cb' w' cs)"

text \<open>The breaker of the module after three failures in a row at the instant 0.\<close>

definition tripped :: CircuitBreaker where
  "tripped = fst (call_all sap_circuit_breaker (0::nat)
                    [(remote_down, 0), (remote_down, 0), (remote_down, 0)])"

text \<open>The same breaker when the three failures happen at second 10.\<close>

definition tripped_late :: CircuitBreaker where
  "tripped_late = fst (call_all sap_circuit_breaker (0::nat)
                         [(remote_down, 10000000), (remote_down, 10000000),
                          (remote_down, 10000000)])"


section \<open>SAP modules (src/core/base_module.py, src/modules/fi/accounts_payable.py)\<close>

datatype TransactionStatus = PENDING | IN_PROGRESS | COMPLETED | FAILED | CANCELLED

text \<open>\<^verbatim>\<open>SAPTransaction\<close>; \<open>'d\<close> is the type of the posted data.\<close>

record 'd SAPTransaction =
  transaction_id :: string
  tx_module :: string
  transaction_type :: string
  status :: TransactionStatus
  created_at :: int
  updated_at :: int
  created_by :: string
  tx_data :: 'd
  error_message :: "string option"
  sap_document_number :: "string option"

text \<open>
  What the connector returns.  An entry of a \<^verbatim>\<open>RETURN\<close> structure is a dictionary with
  optional \<^verbatim>\<open>TYPE\<close> and \<^verbatim>\<open>MESSAGE\<close>; \<^verbatim>\<open>RETURN\<close> itself is absent, one entry, or a
  list of entries.
\<close>

record bapi_msg =
  m_TYPE :: "string option"
  m_MESSAGE :: "string option"

datatype return_field = ReturnDict bapi_msg | ReturnList "bapi_msg list"

record bapi_result =
  RETURN :: "return_field option"
  OBJ_KEY :: "string option"
  BALANCES :: "pyval option option"

text \<open>Keyword parameters of a remote call.\<close>

datatype param = PStr string | PNum real | PDict "(string \<times> param) list" | PList "param list"

type_synonym params = "(string \<times> param) list"

type_synonym row = "(string \<times> string) list"

text \<open>
  The world outside the module.  The connector is an arbitrary stateful collaborator:
  \<open>call_function\<close> and \<open>read_table\<close> take the connector's state \<open>'c\<close> and return an
  outcome and the next state.  \<open>parse_date\<close> is \<^verbatim>\<open>dateutil\<close>'s parser followed by
  \<^verbatim>\<open>strftime('%Y%m%d')\<close> (\<open>None\<close> when it rejects the string), \<open>float_of_string\<close> is
  Python's reading of a string as a float, and \<open>clock_stamp\<close>, \<open>clock_now\<close> are what
  \<^verbatim>\<open>datetime.now()\<close> gives, formatted and raw.
\<close>

record 'c sap_env =
  call_function :: "string \<Rightarrow> params \<Rightarrow> 'c \<Rightarrow> (exn + bapi_result) \<times> 'c"
  read_table :: "string \<Rightarrow> string list \<Rightarrow> string \<Rightarrow> int \<Rightarrow> 'c \<Rightarrow> (exn + row list) \<times> 'c"
  parse_date :: "string \<Rightarrow> string option"
  float_of_string :: "string \<Rightarrow> real option"
  clock_stamp :: string
  clock_now :: int

text \<open>
  A module instance: the connector's state, the audit list, and a trace of every
  \<open>call_function\<close> the module has issued together with its outcome.  The trace is not
  a field of the source; it records the remote calls as observable effects.
\<close>

record ('c, 'd) sap_module =
  conn :: 'c
  sap_module_name :: string
  company_code :: string
  transactions :: "'d SAPTransaction list"
  bapi_trace :: "(string \<times> (exn + bapi_result)) list"

text \<open>\<^verbatim>\<open>log_transaction\<close>.\<close>

definition log_transaction ::
  "('c, 'd) sap_module \<Rightarrow> 'd SAPTransaction \<Rightarrow> ('c, 'd) sap_module" where
  "log_transaction m t = m\<lparr>transactions := transactions m @ [t]\<rparr>"

definition is_error_type :: "string option \<Rightarrow> bool" where
  "is_error_type t = (case t of None \<Rightarrow> False | Some x \<Rightarrow> x = ''E'' \<or> x = ''A'')"

text \<open>
  \<^verbatim>\<open>BaseSAPModule.call_bapi\<close> of base_module.py: call the connector, and raise when
  \<^verbatim>\<open>RETURN\<close> is a single dictionary of type E or A.  A \<^verbatim>\<open>RETURN\<close> list is not
  inspected here.
\<close>

definition call_bapi ::
  "'c sap_env \<Rightarrow> ('c, 'd) sap_module \<Rightarrow> string \<Rightarrow> params
     \<Rightarrow> (exn + bapi_result) \<times> ('c, 'd) sap_module" where
  "call_bapi env m bapi_name ps =
     (case call_function env bapi_name ps (conn m) of
        (r, c') \<Rightarrow>
          (let m' = m\<lparr>conn := c', bapi_trace := bapi_trace m @ [(bapi_name, r)]\<rparr>
           in case r of
                Inl e \<Rightarrow> (Inl e, m')
              | Inr result \<Rightarrow>
                  (case RETURN result of
                     Some (ReturnDict return_msg) \<Rightarrow>
                       if is_error_type (m_TYPE return_msg)
                       then (Inl (Exception (''BAPI Error: '' @
                                 (case m_MESSAGE return_msg of
                                    None \<Rightarrow> ''Unknown error'' | Some x \<Rightarrow> x)) []), m')
                       else (Inr result, m')
                   | _ \<Rightarrow> (Inr result, m'))))"

text \<open>\<^verbatim>\<open>commit_transaction\<close> and \<^verbatim>\<open>rollback_transaction\<close>: log and re-raise.\<close>

definition commit_transaction ::
  "'c sap_env \<Rightarrow> ('c, 'd) sap_module \<Rightarrow> (exn + unit) \<times> ('c, 'd) sap_module" where
  "commit_transaction env m =
     (case call_bapi env m ''BAPI_TRANSACTION_COMMIT'' [(''WAIT'', PStr ''X'')] of
        (Inl e, m') \<Rightarrow> (Inl e, m')
      | (Inr _, m') \<Rightarrow> (Inr (), m'))"

definition rollback_transaction ::
  "'c sap_env \<Rightarrow> ('c, 'd) sap_module \<Rightarrow> (exn + unit) \<times> ('c, 'd) sap_module" where
  "rollback_transaction env m =
     (case call_bapi env m ''BAPI_TRANSACTION_ROLLBACK'' [] of
        (Inl e, m') \<Rightarrow> (Inl e, m')
      | (Inr _, m') \<Rightarrow> (Inr (), m'))"

text \<open>\<^verbatim>\<open>format_sap_date\<close>.\<close>

definition format_sap_date :: "'c sap_env \<Rightarrow> string \<Rightarrow> exn + string" where
  "format_sap_date env date_str =
     (case parse_date env date_str of
        None \<Rightarrow> Inl (ValueError (''Invalid date format: '' @ date_str))
      | Some d \<Rightarrow> Inr d)"

text \<open>\<^verbatim>\<open>parse_sap_return_messages\<close>.\<close>

record parsed_messages =
  has_errors :: bool
  errors :: "string list"
  warnings :: "string list"
  info :: "string list"

definition parse_message :: "parsed_messages \<Rightarrow> bapi_msg \<Rightarrow> parsed_messages" where
  "parse_message result msg =
     (let msg_type = (case m_TYPE msg of None \<Rightarrow> [] | Some t \<Rightarrow> t);
          message = (case m_MESSAGE msg of None \<Rightarrow> [] | Some x \<Rightarrow> x)
      in if msg_type = ''E'' \<or> msg_type = ''A''
         then result\<lparr>has_errors := True, errors := errors result @ [message]\<rparr>
         else if msg_type = ''W''
         then result\<lparr>warnings := warnings result @ [message]\<rparr>
         else if msg_type = ''I'' \<or> msg_type = ''S''
         then result\<lparr>info := info result @ [message]\<rparr>
         else result)"

definition parse_sap_return_messages :: "bapi_msg list \<Rightarrow> parsed_messages" where
  "parse_sap_return_messages return_table =
     foldl parse_message \<lparr>has_errors = False, errors = [], warnings = [], info = []\<rparr> return_table"

subsection \<open>Accounts payable\<close>

text \<open>The invoice dictionary handed to \<^verbatim>\<open>AccountsPayable\<close>; an absent key is \<open>None\<close>.\<close>

record ap_data =
  vendor_code :: "string option"
  invoice_number :: "string option"
  invoice_date :: "string option"
  posting_date :: "string option"
  amount :: "real option"
  currency :: "string option"
  payment_terms :: "string option"
  tax_code :: "string option"
  gl_account :: "string option"
  cost_center :: "string option"
  reference :: "string option"
  text_field :: "string option"

text \<open>\<^verbatim>\<open>AccountsPayable.__init__\<close>.\<close>

definition AccountsPayable_init :: "'c \<Rightarrow> ('c, ap_data) sap_module" where
  "AccountsPayable_init c =
     \<lparr>conn = c, sap_module_name = ''FI-AP'', company_code = ''1000'',
      transactions = [], bapi_trace = []\<rparr>"

text \<open>\<^verbatim>\<open>_vendor_exists\<close>: any exception of the table read counts as "no such vendor".\<close>

definition vendor_exists ::
  "'c sap_env \<Rightarrow> ('c, 'd) sap_module \<Rightarrow> string \<Rightarrow> bool \<times> ('c, 'd) sap_module" where
  "vendor_exists env m vc =
     (case read_table env ''LFA1'' [''LIFNR'']
             (''LIFNR = '' @ [CHR 39] @ zfill 10 vc @ [CHR 39]) 500 (conn m) of
        (Inl e, c') \<Rightarrow> (False, m\<lparr>conn := c'\<rparr>)
      | (Inr vendors, c') \<Rightarrow> (0 < length vendors, m\<lparr>conn := c'\<rparr>))"

text \<open>The required-field loop of \<^verbatim>\<open>validate_data\<close>.\<close>

definition missing_fields :: "ap_data \<Rightarrow> string list" where
  "missing_fields d =
     (if truthy_str (vendor_code d) then [] else [''Missing required field: vendor_code'']) @
     (if truthy_str (invoice_number d) then [] else [''Missing required field: invoice_number'']) @
     (if truthy_str (invoice_date d) then [] else [''Missing required field: invoice_date'']) @
     (if truthy_str (posting_date d) then [] else [''Missing required field: posting_date'']) @
     (if amount d \<noteq> None \<and> amount d \<noteq> Some 0 then [] else [''Missing required field: amount'']) @
     (if truthy_str (currency d) then [] else [''Missing required field: currency''])"

text \<open>
  The date block of \<^verbatim>\<open>validate_data\<close>: both dates are formatted inside one
  \<^verbatim>\<open>try\<close>, so the first failure is the one reported.
\<close>

definition check_date :: "'c sap_env \<Rightarrow> string option \<Rightarrow> string option" where
  "check_date env v =
     (case v of
        None \<Rightarrow> None
      | Some s \<Rightarrow>
          if s = [] then None
          else (case format_sap_date env s of
                  Inl e \<Rightarrow> Some (''Invalid date format: Invalid date format: '' @ s)
                | Inr _ \<Rightarrow> None))"

definition date_errors :: "'c sap_env \<Rightarrow> ap_data \<Rightarrow> string list" where
  "date_errors env d =
     (case check_date env (invoice_date d) of
        Some e \<Rightarrow> [e]
      | None \<Rightarrow> (case check_date env (posting_date d) of Some e \<Rightarrow> [e] | None \<Rightarrow> []))"

text \<open>\<^verbatim>\<open>AccountsPayable.validate_data\<close>.\<close>

definition validate_data ::
  "'c sap_env \<Rightarrow> ('c, 'd) sap_module \<Rightarrow> ap_data
     \<Rightarrow> (bool \<times> string list) \<times> ('c, 'd) sap_module" where
  "validate_data env m d =
     (let errs1 = missing_fields d @
                  (if (case amount d of None \<Rightarrow> 0 | Some a \<Rightarrow> a) \<le> 0
                   then [''Invoice amount must be greater than 0''] else []) @
                  date_errors env d
      in case vendor_code d of
           None \<Rightarrow> ((errs1 = [], errs1), m)
         | Some vc \<Rightarrow>
             if vc = [] then ((errs1 = [], errs1), m)
             else (case vendor_exists env m vc of
                     (ex, m') \<Rightarrow>
                       (let errs = errs1 @ (if ex then [] else [''Vendor '' @ vc @ '' not found''])
                        in ((errs = [], errs), m'))))"

text \<open>
  The parameters of the posting call, built by \<^verbatim>\<open>create\<close> before its \<^verbatim>\<open>try\<close>:
  \<^verbatim>\<open>VendorInvoice(**data)\<close> raises a \<^verbatim>\<open>TypeError\<close> when a field without default is
  absent, and \<^verbatim>\<open>format_sap_date\<close> may raise.
\<close>

definition dflt :: "string option \<Rightarrow> string \<Rightarrow> string" where
  "dflt v d = (case v of None \<Rightarrow> d | Some s \<Rightarrow> s)"

definition post_params :: "'c sap_env \<Rightarrow> string \<Rightarrow> ap_data \<Rightarrow> exn + params" where
  "post_params env cc d =
     (case (vendor_code d, invoice_number d, invoice_date d, posting_date d, amount d) of
        (Some vc, Some inv_no, Some inv_date, Some post_date, Some amt) \<Rightarrow>
          (case format_sap_date env inv_date of
             Inl e \<Rightarrow> Inl e
           | Inr doc_date \<Rightarrow>
               (case format_sap_date env post_date of
                  Inl e \<Rightarrow> Inl e
                | Inr pstng_date \<Rightarrow>
                    (let cur = dflt (currency d) ''USD'';
                         txt = dflt (text_field d) [];
                         gl = dflt (gl_account d) [];
                         doc_header = PDict
                           [(''USERNAME'', PStr ''AUTOMATION''), (''COMP_CODE'', PStr cc),
                            (''DOC_DATE'', PStr doc_date), (''PSTNG_DATE'', PStr pstng_date),
                            (''DOC_TYPE'', PStr ''KR''), (''REF_DOC_NO'', PStr inv_no),
                            (''HEADER_TXT'', PStr txt)];
                         vendor_item = PDict
                           [(''ITEMNO_ACC'', PStr ''1''), (''VENDOR_NO'', PStr vc),
                            (''COMP_CODE'', PStr cc),
                            (''PMNTTRMS'', PStr (dflt (payment_terms d) ''0001'')),
                            (''BLINE_DATE'', PStr pstng_date),
                            (''ALLOC_NMBR'', PStr (dflt (reference d) []))];
                         vendor_currency = PDict
                           [(''ITEMNO_ACC'', PStr ''1''), (''CURRENCY'', PStr cur),
                            (''AMT_DOCCUR'', PNum amt)];
                         gl_item = PDict
                           [(''ITEMNO_ACC'', PStr ''2''),
                            (''GL_ACCOUNT'', PStr (if gl = [] then ''400000'' else gl)),
                            (''COMP_CODE'', PStr cc),
                            (''COSTCENTER'', PStr (dflt (cost_center d) [])),
                            (''ITEM_TEXT'', PStr txt),
                            (''TAX_CODE'', PStr (dflt (tax_code d) ''I0''))];
                         gl_currency = PDict
                           [(''ITEMNO_ACC'', PStr ''2''), (''CURRENCY'', PStr cur),
                            (''AMT_DOCCUR'', PNum (- amt))]
                     in Inr [(''DOCUMENTHEADER'', doc_header),
                             (''ACCOUNTPAYABLE'', PList [vendor_item]),
                             (''ACCOUNTGL'', PList [gl_item]),
                             (''CURRENCYAMOUNT'', PList [vendor_currency, gl_currency])])))
      | _ \<Rightarrow> Inl (TypeError ''VendorInvoice.__init__() missing required argument''))"

text \<open>
  The messages \<^verbatim>\<open>create\<close> parses: the \<^verbatim>\<open>RETURN\<close> list itself, or a one-element
  list of the single entry (the empty dictionary when \<^verbatim>\<open>RETURN\<close> is absent).
\<close>

definition return_table :: "bapi_result \<Rightarrow> bapi_msg list" where
  "return_table result =
     (case RETURN result of
        Some (ReturnList ms) \<Rightarrow> ms
      | Some (ReturnDict msg) \<Rightarrow> [msg]
      | None \<Rightarrow> [\<lparr>m_TYPE = None, m_MESSAGE = None\<rparr>])"

text \<open>
  The \<^verbatim>\<open>except\<close> block of \<^verbatim>\<open>create\<close>: roll back, then re-raise.  When the rollback
  itself raises, its exception is the one that leaves \<^verbatim>\<open>create\<close>.
\<close>

definition rollback_and_raise ::
  "'c sap_env \<Rightarrow> ('c, 'd) sap_module \<Rightarrow> exn \<Rightarrow> (exn + string) \<times> ('c, 'd) sap_module" where
  "rollback_and_raise env m e =
     (case rollback_transaction env m of
        (Inl e', m') \<Rightarrow> (Inl e', m')
      | (Inr _, m') \<Rightarrow> (Inl e, m'))"

text \<open>\<^verbatim>\<open>AccountsPayable.create\<close>.\<close>

definition create ::
  "'c sap_env \<Rightarrow> ('c, ap_data) sap_module \<Rightarrow> ap_data
     \<Rightarrow> (exn + string) \<times> ('c, ap_data) sap_module" where
  "create env m d =
     (case validate_data env m d of
        ((is_valid, errs), m1) \<Rightarrow>
          if \<not> is_valid
          then (Inl (ValidationException ''FI-AP'' ''Validation failed: '' errs), m1)
          else
            (case post_params env (company_code m1) d of
               Inl e \<Rightarrow> (Inl e, m1)
             | Inr ps \<Rightarrow>
                 (case call_bapi env m1 ''BAPI_ACC_DOCUMENT_POST'' ps of
                    (Inl e, m2) \<Rightarrow> rollback_and_raise env m2 e
                  | (Inr result, m2) \<Rightarrow>
                      (let messages = parse_sap_return_messages (return_table result)
                       in if has_errors messages
                          then rollback_and_raise env m2
                                 (Exception ''Invoice posting failed: '' (errors messages))
                          else
                            (let doc_number = dflt (OBJ_KEY result) []
                             in case commit_transaction env m2 of
                                  (Inl e, m3) \<Rightarrow> rollback_and_raise env m3 e
                                | (Inr _, m3) \<Rightarrow>
                                    (Inr doc_number,
                                     log_transaction m3
                                       \<lparr>transaction_id = ''FI-'' @ clock_stamp env,
                                        tx_module = ''FI-AP'',
                                        transaction_type = ''VENDOR_INVOICE'',
                                        status = COMPLETED,
                                        created_at = clock_now env,
                                        updated_at = clock_now env,
                                        created_by = ''AUTOMATION'',
                                        tx_data = d,
                                        error_message = None,
                                        sap_document_number = Some doc_number\<rparr>))))))"

text \<open>
  \<^verbatim>\<open>AccountsPayable.get_vendor_balance\<close>: every exception inside the \<^verbatim>\<open>try\<close>, the
  failed remote call included, ends in the value 0.0.
\<close>

definition get_vendor_balance ::
  "'c sap_env \<Rightarrow> ('c, 'd) sap_module \<Rightarrow> string \<Rightarrow> real \<times> ('c, 'd) sap_module" where
  "get_vendor_balance env m vc =
     (case call_bapi env m ''BAPI_AP_ACC_GETBALANCES''
             [(''COMPANYCODE'', PStr (company_code m)), (''VENDOR'', PStr (zfill 10 vc))] of
        (Inl e, m') \<Rightarrow> (0, m')
      | (Inr result, m') \<Rightarrow>
          (case BALANCES result of
             None \<Rightarrow> (0, m')
           | Some None \<Rightarrow> (0, m')
           | Some (Some v) \<Rightarrow>
               (case py_float (float_of_string env) v of
                  Inl e \<Rightarrow> (0, m')
                | Inr x \<Rightarrow> (x, m'))))"

text \<open>Whether a structured result carries a message of error or abort severity.\<close>

definition has_error_message :: "bapi_result \<Rightarrow> bool" where
  "has_error_message result =
     (case RETURN result of
        None \<Rightarrow> False
      | Some (ReturnDict msg) \<Rightarrow> is_error_type (m_TYPE msg)
      | Some (ReturnList ms) \<Rightarrow> list_ex (\<lambda>msg. is_error_type (m_TYPE msg)) ms)"

text \<open>
  A concrete world: the vendor exists, every date parses, and the remote system answers
  the posting call with a \<^verbatim>\<open>RETURN\<close> list holding one message of type E.
\<close>

definition plain_result :: bapi_result where
  "plain_result = \<lparr>RETURN = None, OBJ_KEY = None, BALANCES = None\<rparr>"

definition rejected :: bapi_result where
  "rejected = \<lparr>RETURN = Some (ReturnList
                   [\<lparr>m_TYPE = Some ''E'', m_MESSAGE = Some ''Posting period closed''\<rparr>]),
                OBJ_KEY = None, BALANCES = None\<rparr>"

definition env_reject :: "unit sap_env" where
  "env_reject =
     \<lparr>call_function = (\<lambda>n ps c. if n = ''BAPI_ACC_DOCUMENT_POST''
                                 then (Inr rejected, c) else (Inr plain_result, c)),
      read_table = (\<lambda>t fs w k c. (Inr [[(''LIFNR'', ''0000001000'')]], c)),
      parse_date = (\<lambda>s. Some ''20241101''),
      float_of_string = (\<lambda>s. None),
      clock_stamp = ''20241101120000'',
      clock_now = 0\<rparr>"

definition invoice0 :: ap_data where
  "invoice0 =
     \<lparr>vendor_code = Some ''1000'', invoice_number = Some ''INV-2024-001'',
      invoice_date = Some ''2024-11-01'', posting_date = Some ''2024-11-01'',
      amount = Some 5000, currency = Some ''USD'', payment_terms = None, tax_code = None,
      gl_account = Some ''400000'', cost_center = Some ''CC1000'', reference = None,
      text_field = Some ''Automated invoice posting''\<rparr>"

definition after_reject :: "(unit, ap_data) sap_module" where
  "after_reject =
     \<lparr>conn = (), sap_module_name = ''FI-AP'', company_code = ''1000'', transactions = [],
      bapi_trace = [(''BAPI_ACC_DOCUMENT_POST'', Inr rejected),
                    (''BAPI_TRANSACTION_ROLLBACK'', Inr plain_result)]\<rparr>"

text \<open>
  Two more worlds for the balance inquiry: one whose connector raises on every call, and
  one that reports a balance of zero.
\<close>

definition zero_balance :: bapi_result where
  "zero_balance = \<lparr>RETURN = None, OBJ_KEY = None, BALANCES = Some (Some (Num 0))\<rparr>"

definition env_down :: "unit sap_env" where
  "env_down =
     \<lparr>call_function = (\<lambda>n ps c. (Inl (Exception ''RFC connection lost'' []), c)),
      read_table = (\<lambda>t fs w k c. (Inl (Exception ''RFC connection lost'' []), c)),
      parse_date = (\<lambda>s. None),
      float_of_string = (\<lambda>s. None),
      clock_stamp = ''20241101120000'',
      clock_now = 0\<rparr>"

definition env_zero :: "unit sap_env" where
  "env_zero =
     \<lparr>call_function = (\<lambda>n ps c. (Inr zero_balance, c)),
      read_table = (\<lambda>t fs w k c. (Inr [], c)),
      parse_date = (\<lambda>s. None),
      float_of_string = (\<lambda>s. None),
      clock_stamp = ''20241101120000'',
      clock_now = 0\<rparr>"

definition ap0 :: "(unit, ap_data) sap_module" where
  "ap0 = AccountsPayable_init ()"

section \<open>Workflows (src/workflows)\<close>

text \<open>
  The workflows talk to collaborators whose code is not part of the workflow classes:
  the OCR and AI engines, the SAP modules, and helper methods the classes call but do not
  define (\<^verbatim>\<open>_send_to_review_queue\<close>, \<^verbatim>\<open>_is_duplicate_invoice\<close>,
  \<^verbatim>\<open>_send_approval_notification\<close>, \<^verbatim>\<open>get_or_create_vendor\<close>, \<^verbatim>\<open>read_table\<close>,
  \<^verbatim>\<open>fi_ap.config\<close>).  Each is a parameter that may raise or return.  One run of a
  workflow invokes each collaborator at most once, so a collaborator is a function of its
  arguments; the run records the order of the invocations in a trace.
\<close>

datatype wf_call =
    ExtractText | ExtractFields | IsDuplicate | SendToReviewQueue | GetOrCreateVendor
  | PoRead | ReadTable | ApprovalNotification | FiApCreate
  | ClassifierPredict | PoCreate | GoodsReceipt | AnomalyDetect | ProcessPayment

text \<open>Invoking a collaborator: its outcome, and the trace extended by the call.\<close>

definition invoke :: "wf_call \<Rightarrow> 'a \<Rightarrow> wf_call list \<Rightarrow> 'a \<times> wf_call list" where
  "invoke c outcome tr = (outcome, tr @ [c])"

text \<open>The dictionary of extracted invoice fields; an absent key is \<open>None\<close>.\<close>

record invoice_data =
  inv_vendor :: "string option"
  inv_invoice_number :: "string option"
  inv_date :: "string option"
  inv_amount :: "pyval option"
  inv_vendor_code :: "string option"
  inv_po_number :: "string option"
  inv_confidence :: "real option"
  inv_currency :: "string option"
  inv_vendor_tax_id :: "string option"
  inv_vendor_country :: "string option"
  inv_email_subject :: "string option"
  inv_sender :: "string option"


text \<open>What \<^verbatim>\<open>mm_po.read\<close> returns, as far as the workflows read it.\<close>

record po_item =
  quantity :: "real option"
  price :: "real option"

record po_data =
  po_number :: string
  po_items :: "po_item list"

text \<open>
  The \<^verbatim>\<open>reason\<close> of a match result and the entries of an error list.  Where the source
  formats a number or an exception into the text, the value itself is kept.
\<close>

datatype reason =
    Match_OK | Variance real | PO_lookup_failed exn
  | No_goods_receipt | Three_way_ok | Three_way_failed exn

datatype error_entry =
    Msg string | Raised exn | Invalid_date_format exn
  | PO_mismatch reason | Three_way_mismatch reason

record match_result =
  is_match :: bool
  po_amount :: "real option"
  invoice_amount :: "real option"
  variance_percent :: "real option"
  gr_documents :: "string list option"
  match_reason :: reason


record validation_info =
  is_valid :: bool
  val_errors :: "error_entry list"
  val_confidence :: real


text \<open>Procure-to-pay: the request and its material lines.\<close>

record material_item =
  mat_material :: "string option"
  mat_plant :: "string option"
  mat_quantity :: "real option"
  mat_price :: "real option"
  mat_po_item :: "string option"
  mat_delivery_date :: "string option"

record ProcureToPayRequest =
  requisition_id :: string
  vendor :: string
  materials :: "material_item list"
  total_amount :: real
  urgency :: string
  requester :: string
  req_cost_center :: string

record features =
  f_amount :: real
  f_urgency :: int
  f_item_count :: nat
  f_vendor_category :: int

record prediction =
  process_type :: string
  confidence :: real
  recommended_action :: string
  estimated_time :: real

record po_request =
  por_vendor :: string
  purchasing_org :: string
  purchasing_group :: string
  por_company_code :: string
  doc_type :: string
  por_items :: "material_item list"

record gr_item =
  gr_material :: string
  gr_plant :: string
  gr_quantity :: real
  gr_po_item :: string

record transaction_data =
  td_amount :: real
  td_expected_amount :: real
  td_variance_percent :: real
  td_vendor :: string

text \<open>The collaborators and the clock of one run.\<close>

record wf_env =
  extract_text_from_image :: "string \<Rightarrow> exn + string"
  extract_invoice_fields :: "string \<Rightarrow> exn + invoice_data"
  is_duplicate_invoice :: "string \<Rightarrow> string \<Rightarrow> exn + bool"
  send_to_review_queue :: "string \<Rightarrow> invoice_data \<Rightarrow> error_entry list \<Rightarrow> exn + unit"
  get_or_create_vendor :: "string option \<Rightarrow> string option \<Rightarrow> string \<Rightarrow> exn + string"
  mm_po_read :: "string \<Rightarrow> exn + po_data"
  wf_read_table :: "string \<Rightarrow> string list \<Rightarrow> string \<Rightarrow> exn + row list"
  approval_threshold :: "exn + real"
  send_approval_notification :: "invoice_data \<Rightarrow> match_result option \<Rightarrow> exn + unit"
  fi_ap_create :: "ap_data \<Rightarrow> exn + string"
  parse_datetime :: "string \<Rightarrow> exn + int"
  wf_float_of_string :: "string \<Rightarrow> real option"
  wf_now :: int
  wf_today :: string
  wf_stamp :: string
  classifier_predict :: "features \<Rightarrow> exn + prediction"
  mm_po_create :: "po_request \<Rightarrow> exn + string"
  mm_po_create_goods_receipt :: "string \<Rightarrow> gr_item list \<Rightarrow> exn + string"
  anomaly_detect :: "transaction_data \<Rightarrow> exn + (bool \<times> real)"
  fi_ap_process_payment :: "string \<Rightarrow> real \<Rightarrow> string \<Rightarrow> exn + string"

subsection \<open>Invoice processing (src/workflows/invoice_processing_workflow.py)\<close>





text \<open>The PO total: \<^verbatim>\<open>sum(item.get('quantity', 0) * item.get('price', 0) ...)\<close>.\<close>

definition get0 :: "real option \<Rightarrow> real" where
  "get0 v = (case v of None \<Rightarrow> 0 | Some x \<Rightarrow> x)"

definition po_total_of :: "po_data \<Rightarrow> real" where
  "po_total_of po = sum_list (map (\<lambda>item. get0 (quantity item) * get0 (price item)) (po_items po))"

text \<open>\<^verbatim>\<open>float(invoice_data.get('amount', 0))\<close>.\<close>

definition amount_of :: "wf_env \<Rightarrow> invoice_data \<Rightarrow> exn + real" where
  "amount_of env d =
     (case inv_amount d of
        None \<Rightarrow> Inr 0
      | Some v \<Rightarrow> py_float (wf_float_of_string env) v)"

definition lookup_failed :: "exn \<Rightarrow> match_result" where
  "lookup_failed e =
     \<lparr>is_match = False, po_amount = None, invoice_amount = None, variance_percent = None,
      gr_documents = None, match_reason = PO_lookup_failed e\<rparr>"

text \<open>
  \<^verbatim>\<open>_match_with_po\<close>.  Every exception inside its \<^verbatim>\<open>try\<close> (the failed PO read, the
  failed conversion of the amount, the division by a PO total of zero) gives a result
  that is no match.
\<close>

definition match_with_po ::
  "wf_env \<Rightarrow> wf_call list \<Rightarrow> invoice_data \<Rightarrow> string \<Rightarrow> match_result \<times> wf_call list" where
  "match_with_po env tr d po_no =
     (case invoke PoRead (mm_po_read env po_no) tr of
        (Inl e, tr') \<Rightarrow> (lookup_failed e, tr')
      | (Inr po, tr') \<Rightarrow>
          (let po_total = po_total_of po
           in case amount_of env d of
                Inl e \<Rightarrow> (lookup_failed e, tr')
              | Inr inv_amt \<Rightarrow>
                  if po_total = 0 then (lookup_failed ZeroDivisionError, tr')
                  else
                    (let variance = \<bar>po_total - inv_amt\<bar> / po_total * 100;
                         matched = (variance \<le> 5)
                     in (\<lparr>is_match = matched, po_amount = Some po_total,
                          invoice_amount = Some inv_amt, variance_percent = Some variance,
                          gr_documents = None,
                          match_reason = (if \<not> matched then Variance variance else Match_OK)\<rparr>,
                         tr'))))"














text \<open>
  A concrete world for the workflows.  Every collaborator answers; the extractor finds an
  invoice of 1050 against PO 4500000001, whose single line is 10 pieces at 100.
\<close>

definition invoice1050 :: invoice_data where
  "invoice1050 =
     \<lparr>inv_vendor = Some ''ACME Corp'', inv_invoice_number = Some ''INV-7'',
      inv_date = Some ''2024-11-01'', inv_amount = Some (Num 1050), inv_vendor_code = None,
      inv_po_number = Some ''4500000001'', inv_confidence = Some (9 / 10),
      inv_currency = None, inv_vendor_tax_id = None, inv_vendor_country = None,
      inv_email_subject = None, inv_sender = None\<rparr>"

definition po1000 :: po_data where
  "po1000 = \<lparr>po_number = ''4500000001'', po_items = [\<lparr>quantity = Some 10, price = Some 100\<rparr>]\<rparr>"

definition world0 :: wf_env where
  "world0 =
     \<lparr>extract_text_from_image = (\<lambda>f. Inr ''scanned text''),
      extract_invoice_fields = (\<lambda>t. Inr invoice1050),
      is_duplicate_invoice = (\<lambda>n v. Inr False),
      send_to_review_queue = (\<lambda>f d es. Inr ()),
      get_or_create_vendor = (\<lambda>n t c. Inr ''1000''),
      mm_po_read = (\<lambda>p. Inr po1000),
      wf_read_table = (\<lambda>t fs w. Inr [[(''MBLNR'', ''5000000001'')]]),
      approval_threshold = Inr 10000,
      send_approval_notification = (\<lambda>d m. Inr ()),
      fi_ap_create = (\<lambda>d. Inr ''1900000001''),
      parse_datetime = (\<lambda>s. Inr 0),
      wf_float_of_string = (\<lambda>s. None),
      wf_now = 86400000000,
      wf_today = ''2024-11-02'',
      wf_stamp = ''20241102120000'',
      classifier_predict = (\<lambda>f. Inl (Exception ''model not loaded'' [])),
      mm_po_create = (\<lambda>r. Inr ''4500000001''),
      mm_po_create_goods_receipt = (\<lambda>p is. Inr ''5000000001''),
      anomaly_detect = (\<lambda>t. Inr (False, 0)),
      fi_ap_process_payment = (\<lambda>v a m. Inr ''1500000001'')\<rparr>"




subsection \<open>Procure to pay (src/workflows/procure_to_pay.py)\<close>

datatype WorkflowStatus =
    INITIATED | PO_CREATED | GOODS_RECEIVED | INVOICE_POSTED | PAYMENT_PROCESSED
  | WF_COMPLETED | WF_FAILED

text \<open>The state of a \<^verbatim>\<open>ProcureToPayWorkflow\<close> object.\<close>

record p2p_workflow =
  workflow_id :: "string option"
  wf_status :: WorkflowStatus
  wf_documents :: "string \<rightharpoonup> string"

definition ProcureToPayWorkflow_init :: p2p_workflow where
  "ProcureToPayWorkflow_init =
     \<lparr>workflow_id = None, wf_status = INITIATED, wf_documents = Map.empty\<rparr>"

record classification =
  cl_process_type :: string
  cl_confidence :: real
  cl_recommended_action :: string
  cl_estimated_time :: real

text \<open>The summary dictionary that \<^verbatim>\<open>execute\<close> returns.\<close>

record summary =
  sum_workflow_id :: string
  sum_status :: string
  steps_completed :: "string list"
  sum_documents :: "string \<rightharpoonup> string"
  sum_errors :: "error_entry list"
  sum_classification :: "classification option"

text \<open>\<^verbatim>\<open>_classify_request\<close>: any exception gives the default classification.\<close>

definition classify_request ::
  "wf_env \<Rightarrow> wf_call list \<Rightarrow> ProcureToPayRequest \<Rightarrow> classification \<times> wf_call list" where
  "classify_request env tr request =
     (case invoke ClassifierPredict
             (classifier_predict env
                \<lparr>f_amount = total_amount request,
                 f_urgency = (if urgency request = ''normal'' then 0
                              else if urgency request = ''urgent'' then 1 else 2),
                 f_item_count = length (materials request),
                 f_vendor_category = 1\<rparr>) tr of
        (Inl e, tr') \<Rightarrow>
          (\<lparr>cl_process_type = ''standard_procurement'', cl_confidence = 1 / 2,
            cl_recommended_action = ''MANUAL_REVIEW'', cl_estimated_time = 300\<rparr>, tr')
      | (Inr p, tr') \<Rightarrow>
          (\<lparr>cl_process_type = process_type p, cl_confidence = confidence p,
            cl_recommended_action = recommended_action p,
            cl_estimated_time = estimated_time p\<rparr>, tr'))"

text \<open>The \<^verbatim>\<open>po_data\<close> dictionary built by \<^verbatim>\<open>_create_purchase_order\<close>.\<close>

definition po_request_of :: "ProcureToPayRequest \<Rightarrow> po_request" where
  "po_request_of request =
     \<lparr>por_vendor = vendor request, purchasing_org = ''1000'', purchasing_group = ''001'',
      por_company_code = ''1000'', doc_type = ''NB'', por_items = materials request\<rparr>"

text \<open>\<^verbatim>\<open>_create_purchase_order\<close>.\<close>

definition create_purchase_order ::
  "wf_env \<Rightarrow> wf_call list \<Rightarrow> p2p_workflow \<Rightarrow> ProcureToPayRequest
     \<Rightarrow> (exn + string) \<times> p2p_workflow \<times> wf_call list" where
  "create_purchase_order env tr flow request =
     (case invoke PoCreate (mm_po_create env (po_request_of request)) tr of
        (Inl e, tr') \<Rightarrow> (Inl e, flow, tr')
      | (Inr po, tr') \<Rightarrow>
          (Inr po, flow\<lparr>wf_documents := (wf_documents flow)(''po_number'' \<mapsto> po)\<rparr>, tr'))"

text \<open>
  The goods-receipt items: subscripting a material line without \<^verbatim>\<open>material\<close>,
  \<^verbatim>\<open>plant\<close> or \<^verbatim>\<open>quantity\<close> raises a \<^verbatim>\<open>KeyError\<close>.
\<close>

fun gr_items_of :: "material_item list \<Rightarrow> exn + gr_item list" where
  "gr_items_of [] = Inr []"
| "gr_items_of (item # rest) =
     (case mat_material item of
        None \<Rightarrow> Inl (KeyError ''material'')
      | Some m \<Rightarrow>
     (case mat_plant item of
        None \<Rightarrow> Inl (KeyError ''plant'')
      | Some p \<Rightarrow>
     (case mat_quantity item of
        None \<Rightarrow> Inl (KeyError ''quantity'')
      | Some q \<Rightarrow>
     (case gr_items_of rest of
        Inl e \<Rightarrow> Inl e
      | Inr gs \<Rightarrow>
          Inr (\<lparr>gr_material = m, gr_plant = p, gr_quantity = q,
                gr_po_item = dflt (mat_po_item item) ''00010''\<rparr> # gs)))))"

text \<open>\<^verbatim>\<open>_post_goods_receipt\<close>.\<close>

definition post_goods_receipt ::
  "wf_env \<Rightarrow> wf_call list \<Rightarrow> p2p_workflow \<Rightarrow> string \<Rightarrow> material_item list
     \<Rightarrow> (exn + string) \<times> p2p_workflow \<times> wf_call list" where
  "post_goods_receipt env tr flow po ms =
     (case gr_items_of ms of
        Inl e \<Rightarrow> (Inl e, flow, tr)
      | Inr gr_items \<Rightarrow>
          (case invoke GoodsReceipt (mm_po_create_goods_receipt env po gr_items) tr of
             (Inl e, tr') \<Rightarrow> (Inl e, flow, tr')
           | (Inr material_doc, tr') \<Rightarrow>
               (Inr material_doc,
                flow\<lparr>wf_documents := (wf_documents flow)(''material_document'' \<mapsto> material_doc)\<rparr>,
                tr')))"

text \<open>
  \<^verbatim>\<open>_verify_invoice_with_ai\<close>.  The PO read is outside the inner \<^verbatim>\<open>try\<close>; the anomaly
  detector is inside it, and when it raises the plain threshold of 10 percent decides.
\<close>

definition verify_invoice_with_ai ::
  "wf_env \<Rightarrow> wf_call list \<Rightarrow> ProcureToPayRequest \<Rightarrow> string \<Rightarrow> (exn + bool) \<times> wf_call list" where
  "verify_invoice_with_ai env tr request po =
     (case invoke PoRead (mm_po_read env po) tr of
        (Inl e, tr1) \<Rightarrow> (Inl e, tr1)
      | (Inr pd, tr1) \<Rightarrow>
          (let expected_amount = po_total_of pd;
               variance = \<bar>expected_amount - total_amount request\<bar>;
               variance_pct = (if expected_amount > 0 then variance / expected_amount * 100 else 0)
           in if variance_pct > 5
              then (case invoke AnomalyDetect
                           (anomaly_detect env
                              \<lparr>td_amount = total_amount request,
                               td_expected_amount = expected_amount,
                               td_variance_percent = variance_pct,
                               td_vendor = vendor request\<rparr>) tr1 of
                      (Inr (is_anomaly, score), tr2) \<Rightarrow>
                        if is_anomaly then (Inr False, tr2) else (Inr True, tr2)
                    | (Inl e, tr2) \<Rightarrow>
                        if variance_pct > 10 then (Inr False, tr2) else (Inr True, tr2))
              else (Inr True, tr1)))"

text \<open>The invoice dictionary built by \<^verbatim>\<open>_post_invoice\<close>.\<close>

definition p2p_invoice :: "wf_env \<Rightarrow> ProcureToPayRequest \<Rightarrow> string \<Rightarrow> ap_data" where
  "p2p_invoice env request po =
     \<lparr>vendor_code = Some (vendor request),
      invoice_number = Some (''INV-'' @ requisition_id request),
      invoice_date = Some (wf_today env), posting_date = Some (wf_today env),
      amount = Some (total_amount request), currency = Some ''USD'',
      payment_terms = None, tax_code = None, gl_account = Some ''400000'',
      cost_center = Some (if req_cost_center request = [] then ''CC1000''
                          else req_cost_center request),
      reference = Some po,
      text_field = Some (''Automated invoice for PO '' @ po)\<rparr>"

text \<open>\<^verbatim>\<open>_post_invoice\<close>.\<close>

definition post_invoice ::
  "wf_env \<Rightarrow> wf_call list \<Rightarrow> p2p_workflow \<Rightarrow> ProcureToPayRequest \<Rightarrow> string
     \<Rightarrow> (exn + string) \<times> p2p_workflow \<times> wf_call list" where
  "post_invoice env tr flow request po =
     (case invoke FiApCreate (fi_ap_create env (p2p_invoice env request po)) tr of
        (Inl e, tr') \<Rightarrow> (Inl e, flow, tr')
      | (Inr invoice_doc, tr') \<Rightarrow>
          (Inr invoice_doc,
           flow\<lparr>wf_documents := (wf_documents flow)(''invoice_document'' \<mapsto> invoice_doc)\<rparr>, tr'))"

text \<open>\<^verbatim>\<open>_should_auto_pay\<close>.\<close>

definition should_auto_pay :: "ProcureToPayRequest \<Rightarrow> bool" where
  "should_auto_pay request =
     (if total_amount request > 10000 then False
      else if urgency request = ''emergency'' then False
      else True)"

text \<open>\<^verbatim>\<open>_process_payment\<close>: a transfer to the vendor.\<close>

definition process_payment ::
  "wf_env \<Rightarrow> wf_call list \<Rightarrow> string \<Rightarrow> real \<Rightarrow> (exn + string) \<times> wf_call list" where
  "process_payment env tr v a = invoke ProcessPayment (fi_ap_process_payment env v a ''T'') tr"

text \<open>The \<^verbatim>\<open>except\<close> block of \<^verbatim>\<open>execute\<close>.\<close>

definition p2p_failed ::
  "summary \<Rightarrow> p2p_workflow \<Rightarrow> exn \<Rightarrow> wf_call list \<Rightarrow> summary \<times> p2p_workflow \<times> wf_call list" where
  "p2p_failed sm flow e tr =
     (sm\<lparr>sum_status := ''failed'', sum_errors := sum_errors sm @ [Raised e]\<rparr>,
      flow\<lparr>wf_status := WF_FAILED\<rparr>, tr)"

text \<open>Step 6 and the end of \<^verbatim>\<open>execute\<close>: pay when the request qualifies, then complete.\<close>

definition pay_and_complete ::
  "wf_env \<Rightarrow> wf_call list \<Rightarrow> p2p_workflow \<Rightarrow> ProcureToPayRequest \<Rightarrow> summary
     \<Rightarrow> summary \<times> p2p_workflow \<times> wf_call list" where
  "pay_and_complete env tr flow request sm =
     (if should_auto_pay request
      then (case process_payment env tr (vendor request) (total_amount request) of
              (Inl e, tr') \<Rightarrow> p2p_failed sm flow e tr'
            | (Inr payment_doc, tr') \<Rightarrow>
                (sm\<lparr>steps_completed := steps_completed sm @ [''payment_processed''],
                    sum_documents := (sum_documents sm)(''payment_document'' \<mapsto> payment_doc),
                    sum_status := ''completed''\<rparr>,
                 flow\<lparr>wf_status := WF_COMPLETED\<rparr>, tr'))
      else (sm\<lparr>sum_status := ''completed''\<rparr>, flow\<lparr>wf_status := WF_COMPLETED\<rparr>, tr))"

text \<open>\<^verbatim>\<open>ProcureToPayWorkflow.execute\<close>.\<close>

definition execute ::
  "wf_env \<Rightarrow> wf_call list \<Rightarrow> p2p_workflow \<Rightarrow> ProcureToPayRequest
     \<Rightarrow> summary \<times> p2p_workflow \<times> wf_call list" where
  "execute env tr wf0 request =
     (let wid = ''P2P-'' @ wf_stamp env;
          flow = wf0\<lparr>workflow_id := Some wid\<rparr>;
          sm0 = \<lparr>sum_workflow_id = wid, sum_status = ''in_progress'', steps_completed = [],
                 sum_documents = Map.empty, sum_errors = [], sum_classification = None\<rparr>
      in case classify_request env tr request of
           (cl, tr1) \<Rightarrow>
      (let sm1 = sm0\<lparr>sum_classification := Some cl\<rparr>
       in case create_purchase_order env tr1 flow request of
            (Inl e, wf2, tr2) \<Rightarrow> p2p_failed sm1 wf2 e tr2
          | (Inr po, wf2, tr2) \<Rightarrow>
       (let sm2 = sm1\<lparr>steps_completed := steps_completed sm1 @ [''po_created''],
                      sum_documents := (sum_documents sm1)(''po_number'' \<mapsto> po)\<rparr>;
            wf2' = wf2\<lparr>wf_status := PO_CREATED\<rparr>
        in case post_goods_receipt env tr2 wf2' po (materials request) of
             (Inl e, wf3, tr3) \<Rightarrow> p2p_failed sm2 wf3 e tr3
           | (Inr material_doc, wf3, tr3) \<Rightarrow>
        (let sm3 = sm2\<lparr>steps_completed := steps_completed sm2 @ [''goods_received''],
                       sum_documents :=
                         (sum_documents sm2)(''material_document'' \<mapsto> material_doc)\<rparr>;
             wf3' = wf3\<lparr>wf_status := GOODS_RECEIVED\<rparr>
         in case verify_invoice_with_ai env tr3 request po of
              (Inl e, tr4) \<Rightarrow> p2p_failed sm3 wf3' e tr4
            | (Inr invoice_valid, tr4) \<Rightarrow>
                if \<not> invoice_valid
                then (sm3\<lparr>sum_errors := sum_errors sm3 @
                              [Msg ''Invoice verification failed - requires manual review''],
                          sum_status := ''requires_review''\<rparr>, wf3', tr4)
                else
                  (case post_invoice env tr4 wf3' request po of
                     (Inl e, wf5, tr5) \<Rightarrow> p2p_failed sm3 wf5 e tr5
                   | (Inr invoice_doc, wf5, tr5) \<Rightarrow>
                       pay_and_complete env tr5 (wf5\<lparr>wf_status := INVOICE_POSTED\<rparr>) request
                         (sm3\<lparr>steps_completed := steps_completed sm3 @ [''invoice_posted''],
                              sum_documents :=
                                (sum_documents sm3)(''invoice_document'' \<mapsto> invoice_doc)\<rparr>))))))"

text \<open>
  A concrete world for procure to pay: the PO that is read back holds 100 pieces at 100,
  and two requests for it, of 10000 and of 10001.
\<close>

definition po10000 :: po_data where
  "po10000 = \<lparr>po_number = ''4500000001'', po_items = [\<lparr>quantity = Some 100, price = Some 100\<rparr>]\<rparr>"

definition world_p2p :: wf_env where
  "world_p2p = world0\<lparr>mm_po_read := (\<lambda>p. Inr po10000)\<rparr>"

definition request10000 :: ProcureToPayRequest where
  "request10000 =
     \<lparr>requisition_id = ''REQ-2024-001'', vendor = ''1000'',
      materials = [\<lparr>mat_material = Some ''MAT001'', mat_plant = Some ''1000'',
                    mat_quantity = Some 100, mat_price = Some 100, mat_po_item = None,
                    mat_delivery_date = Some ''2024-12-15''\<rparr>],
      total_amount = 10000, urgency = ''normal'', requester = ''USER123'',
      req_cost_center = ''CC1000''\<rparr>"

definition request10001 :: ProcureToPayRequest where
  "request10001 = request10000\<lparr>total_amount := 10001\<rparr>"

definition item0 :: gr_item where
  "item0 = \<lparr>gr_material = ''MAT001'', gr_plant = ''1000'', gr_quantity = 100,
            gr_po_item = ''00010''\<rparr>"


text \<open>
  A run without other failures: the purchase order, the goods receipt and the invoice
  posting return, the material lines are complete, and the verification passes.
\<close>

definition steps_succeed :: "wf_env \<Rightarrow> ProcureToPayRequest \<Rightarrow> bool" where
  "steps_succeed env request =
     (case mm_po_create env (po_request_of request) of
        Inl e \<Rightarrow> False
      | Inr po \<Rightarrow>
          (case gr_items_of (materials request) of
             Inl e \<Rightarrow> False
           | Inr gs \<Rightarrow>
               (case mm_po_create_goods_receipt env po gs of
                  Inl e \<Rightarrow> False
                | Inr material_doc \<Rightarrow>
                    fst (verify_invoice_with_ai env [] request po) = Inr True \<and>
                    (case fi_ap_create env (p2p_invoice env request po) of
                       Inl e \<Rightarrow> False
                     | Inr invoice_doc \<Rightarrow> True))))"

text \<open>The same world when the creation of the purchase order is rejected.\<close>

definition world_no_po :: wf_env where
  "world_no_po = world_p2p\<lparr>mm_po_create := (\<lambda>r. Inl (Exception ''PO creation failed: '' [''Vendor blocked'']))\<rparr>"

section \<open>Token bucket: the bounds are an invariant\<close>

lemma refill_inv:
  assumes "bucket_inv b" "last_refill b \<le> now" "0 \<le> refill_rate b"
  shows "bucket_inv (refill b now)"
proof -
  have "0 \<le> (now - last_refill b) * refill_rate b" using assms by simp
  then show ?thesis using assms(1) by (simp add: bucket_inv_def refill_def Let_def min_def)
qed

lemma refill_fields:
  "capacity (refill b now) = capacity b" "refill_rate (refill b now) = refill_rate b"
  "last_refill (refill b now) = now"
  by (simp_all add: refill_def Let_def)

lemma consume_fields:
  "capacity (snd (consume b n now)) = capacity b"
  "refill_rate (snd (consume b n now)) = refill_rate b"
  "last_refill (snd (consume b n now)) = now"
  by (simp_all add: consume_def Let_def refill_fields)

lemma consume_inv:
  assumes "bucket_inv b" "last_refill b \<le> now" "0 \<le> refill_rate b" "0 \<le> n"
  shows "bucket_inv (snd (consume b n now))"
proof -
  have r: "bucket_inv (refill b now)" using assms by (simp add: refill_inv)
  show ?thesis
  proof (cases "tokens (refill b now) \<ge> real_of_int n")
    case True
    then show ?thesis using r assms(4)
      by (simp add: consume_def Let_def bucket_inv_def refill_fields)
  next
    case False
    then show ?thesis using r by (simp add: consume_def Let_def)
  qed
qed

text \<open>
  A single bucket under any mix of refills and withdrawals of non-negative amounts: the
  bounds hold after each operation, hence also between the refill and the withdrawal
  inside \<open>consume\<close>.
\<close>

lemma bucket_run_inv:
  assumes "bucket_inv b" "0 \<le> refill_rate b" "sorted (last_refill b # map op_time ops)"
    "\<forall>x \<in> set ops. 0 \<le> op_amount x"
  shows "bucket_inv (foldl bucket_step b ops)"
  using assms
proof (induction ops arbitrary: b)
  case Nil then show ?case by simp
next
  case (Cons x ops)
  have t: "last_refill b \<le> op_time x" using Cons.prems(3) by simp
  have i: "bucket_inv (bucket_step b x)"
    using Cons.prems t by (cases x) (simp_all add: refill_inv consume_inv)
  have f: "last_refill (bucket_step b x) = op_time x" "refill_rate (bucket_step b x) = refill_rate b"
    by (cases x; simp add: refill_fields consume_fields)+
  have "sorted (last_refill (bucket_step b x) # map op_time ops)"
    using Cons.prems(3) f by simp
  then have "bucket_inv (foldl bucket_step (bucket_step b x) ops)"
    using Cons.IH[of "bucket_step b x"] i f Cons.prems by simp
  then show ?case by simp
qed

lemma init_inv: "0 \<le> cap \<Longrightarrow> bucket_inv (TokenBucket_init cap rate now)"
  by (simp add: bucket_inv_def TokenBucket_init_def)

lemma is_allowed_inv:
  assumes "rl_inv T rl" "T \<le> tc" "tc \<le> tn"
  shows "rl_inv tn (snd (is_allowed rl c tc tn))"
proof -
  define bucket where "bucket = (case buckets rl c of
                      None \<Rightarrow> TokenBucket_init (rl_capacity rl) (rl_refill_rate rl) tc
                    | Some b \<Rightarrow> b)"
  have b: "bucket_inv bucket \<and> last_refill bucket \<le> tn \<and> 0 \<le> refill_rate bucket"
  proof (cases "buckets rl c")
    case None
    then show ?thesis using assms
      by (simp add: bucket_def rl_inv_def init_inv) (simp add: TokenBucket_init_def)
  next
    case (Some x)
    then have "bucket_inv x \<and> last_refill x \<le> T \<and> 0 \<le> refill_rate x"
      using assms(1) by (simp add: rl_inv_def)
    then show ?thesis using Some assms by (simp add: bucket_def)
  qed
  have n: "bucket_inv (snd (consume bucket 1 tn))" using b by (simp add: consume_inv)
  have s: "snd (is_allowed rl c tc tn) = rl\<lparr>buckets := (buckets rl)(c \<mapsto> snd (consume bucket 1 tn))\<rparr>"
    by (simp add: is_allowed_def Let_def bucket_def)
  have old: "\<And>c' b'. buckets rl c' = Some b' \<Longrightarrow>
      bucket_inv b' \<and> last_refill b' \<le> tn \<and> 0 \<le> refill_rate b'"
    using assms by (fastforce simp: rl_inv_def)
  show ?thesis unfolding s using assms(1) n b old
    by (simp add: rl_inv_def consume_fields)
qed

lemma allow_all_inv:
  "rl_inv T rl \<Longrightarrow> sorted (T # readings cs) \<Longrightarrow> \<exists>T'. rl_inv T' (snd (allow_all rl cs))"
proof (induction cs arbitrary: T rl)
  case Nil then show ?case by auto
next
  case (Cons x cs)
  obtain c tc tn where x: "x = (c, tc, tn)" by (cases x) auto
  have "rl_inv tn (snd (is_allowed rl c tc tn))"
    using Cons.prems x by (intro is_allowed_inv[of T]) auto
  moreover have "sorted (tn # readings cs)" using Cons.prems x by auto
  ultimately show ?case using Cons.IH x by (simp add: Let_def)
qed

lemma readings_take: "sorted (T # readings cs) \<Longrightarrow> sorted (T # readings (take k cs))"
proof (induction cs arbitrary: k T)
  case Nil then show ?case by simp
next
  case (Cons x cs)
  obtain c tc tn where x: "x = (c, tc, tn)" by (cases x) auto
  show ?case
  proof (cases k)
    case 0 then show ?thesis by simp
  next
    case (Suc j)
    have a: "T \<le> tc" "tc \<le> tn" "sorted (tn # readings cs)"
      using Cons.prems x by (simp_all only: readings.simps sorted2)
    have "sorted (tn # readings (take j cs))" using Cons.IH a(3) by blast
    then show ?thesis using a x Suc by (simp only: take_Suc_Cons readings.simps sorted2)
  qed
qed


lemma rl_init_inv: "0 \<le> rpm \<Longrightarrow> rl_inv T (RateLimiter_init rpm)"
  by (simp add: rl_inv_def RateLimiter_init_def)

text \<open>
  The part of the bounds that the code keeps.  Start from a fresh limiter with a
  non-negative per-minute budget and let any clients call \<open>is_allowed\<close> in any order, on
  a clock that never runs backwards.  After every prefix of the run every client's bucket
  holds at least zero tokens and at most its capacity.
\<close>

theorem token_bucket_invariant:
  assumes "0 \<le> rpm" and "sorted (readings cs)"
    and "buckets (snd (allow_all (RateLimiter_init rpm) (take k cs))) c = Some b"
  shows "0 \<le> tokens b \<and> tokens b \<le> real_of_int (capacity b)"
proof -
  obtain T where T: "sorted (T # readings cs)"
  proof (cases "readings cs")
    case Nil then show ?thesis using that[of 0] by simp
  next
    case (Cons t ts) then show ?thesis using that[of t] assms(2) by simp
  qed
  have "sorted (T # readings (take k cs))" using T by (rule readings_take)
  then obtain T' where "rl_inv T' (snd (allow_all (RateLimiter_init rpm) (take k cs)))"
    using allow_all_inv[OF rl_init_inv[OF assms(1)]] by blast
  then have "bucket_inv b" using assms(3) by (simp add: rl_inv_def)
  then show ?thesis by (simp add: bucket_inv_def)
qed

text \<open>The invariant at a concrete run of three calls by two clients.\<close>

theorem token_bucket_invariant_witness:
  "(0::int) \<le> 60 \<and> sorted (readings burst2) \<and>
   buckets (snd (allow_all (RateLimiter_init 60) (take 3 burst2))) ''a''
     = Some \<lparr>capacity = 60, refill_rate = 1, tokens = 59, last_refill = 5 / 2\<rparr> \<and>
   (0::real) \<le> 59 \<and> (59::real) \<le> real_of_int 60"
proof -
  have s: "sorted (readings burst2)" by (simp add: burst2_def)
  have e: "buckets (snd (allow_all (RateLimiter_init 60) (take 3 burst2))) ''a''
     = Some \<lparr>capacity = 60, refill_rate = 1, tokens = 59, last_refill = 5 / 2\<rparr>"
    by (simp add: burst2_def RateLimiter_init_def is_allowed_def consume_def refill_def
        TokenBucket_init_def Let_def)
  show ?thesis using token_bucket_invariant[OF _ s e] s e by simp
qed

text \<open>
  Claim C4 at an input where the code departs from it.  The refill takes the difference of
  two readings of \<^verbatim>\<open>time.time()\<close> and does not clamp it.  A limiter with a budget of one
  request per minute admits a request at reading 120; the system clock is then set back,
  and at reading 60 the refill adds minus one token: the bucket holds \<open>-1\<close> tokens.
\<close>

theorem clock_step_back_goes_negative:
  "fst (allow_all (RateLimiter_init 1) step_back) = [True, False] \<and>
   buckets (snd (allow_all (RateLimiter_init 1) step_back)) ''a''
     = Some \<lparr>capacity = 1, refill_rate = 1 / 60, tokens = - 1, last_refill = 60\<rparr> \<and>
   (- 1 :: real) < 0"
  by (simp add: step_back_def RateLimiter_init_def is_allowed_def consume_def refill_def
      TokenBucket_init_def Let_def)


section \<open>Retry-after: the wait is counted from the last refill\<close>

lemma get_wait_time_max:
  assumes "0 < refill_rate b"
  shows "get_wait_time b = Inr (max 0 ((1 - tokens b) / refill_rate b))"
proof (cases "tokens b \<ge> 1")
  case True
  then have "(1 - tokens b) / refill_rate b \<le> 0"
    using assms by (simp add: divide_nonpos_pos)
  then show ?thesis using True by (simp add: get_wait_time_def max_def)
next
  case False
  then have "0 < (1 - tokens b) / refill_rate b" using assms by simp
  then show ?thesis using False assms by (simp add: get_wait_time_def max_def)
qed

lemma available_iff:
  assumes "0 < refill_rate b" "1 \<le> capacity b" "0 \<le> d"
  shows "token_available_after b (last_refill b) d \<longleftrightarrow> max 0 ((1 - tokens b) / refill_rate b) \<le> d"
proof -
  have c: "1 \<le> real_of_int (capacity b)" using assms(2) by simp
  have "token_available_after b (last_refill b) d \<longleftrightarrow> 1 \<le> tokens b + d * refill_rate b"
    using c by (simp add: token_available_after_def consume_def refill_def Let_def min_def)
  also have "\<dots> \<longleftrightarrow> (1 - tokens b) / refill_rate b \<le> d"
    using assms(1) by (simp add: pos_divide_le_eq algebra_simps)
  also have "\<dots> \<longleftrightarrow> max 0 ((1 - tokens b) / refill_rate b) \<le> d"
    using assms(3) by simp
  finally show ?thesis .
qed

text \<open>
  Claim C6, as amended.  For a client whose bucket refills at a positive rate,
  \<open>get_retry_after\<close> returns exactly \<open>max 0 ((1 - tokens) / refill_rate)\<close>.  With a capacity
  of at least one token this is the exact delay, counted from the bucket's last refill,
  until a request succeeds: a request \<open>d\<close> seconds after the last refill is admitted
  if and only if \<open>d\<close> is at least the returned value.
\<close>

theorem retry_after_from_last_refill:
  assumes "buckets rl c = Some b" and "0 < refill_rate b" and "1 \<le> capacity b" and "0 \<le> d"
  shows "get_retry_after rl c = Inr (max 0 ((1 - tokens b) / refill_rate b)) \<and>
         (token_available_after b (last_refill b) d \<longleftrightarrow>
            max 0 ((1 - tokens b) / refill_rate b) \<le> d)"
  using assms by (simp add: get_retry_after_def get_wait_time_max available_iff)

text \<open>The amended claim at the emptied bucket: the wait is one second, half a second is too early.\<close>

theorem retry_after_from_last_refill_witness:
  "buckets ((RateLimiter_init 60)\<lparr>buckets := [''a'' \<mapsto> drained]\<rparr>) ''a'' = Some drained \<and>
   0 < refill_rate drained \<and> 1 \<le> capacity drained \<and> (0::real) \<le> 1 / 2 \<and>
   get_retry_after ((RateLimiter_init 60)\<lparr>buckets := [''a'' \<mapsto> drained]\<rparr>) ''a'' = Inr 1 \<and>
   \<not> token_available_after drained (last_refill drained) (1 / 2)"
  using retry_after_from_last_refill[of "(RateLimiter_init 60)\<lparr>buckets := [''a'' \<mapsto> drained]\<rparr>"
      "''a''" drained "1 / 2"]
  by (simp add: drained_def)

text \<open>
  The claim as stated counts the delay from the moment of the call.  Asked half a second
  after the last refill, the emptied bucket still answers one second, although a request
  only half a second after the question is already admitted.
\<close>

theorem retry_after_not_from_call_moment:
  "get_retry_after ((RateLimiter_init 60)\<lparr>buckets := [''a'' \<mapsto> drained]\<rparr>) ''a'' = Inr 1 \<and>
   token_available_after drained (1 / 2) (1 / 2) \<and> (1 / 2 :: real) < 1"
  by (simp add: get_retry_after_def get_wait_time_def drained_def token_available_after_def
      consume_def refill_def Let_def)

section \<open>Rate limiter: a burst of sixty requests\<close>

lemma consume_burst_step:
  assumes "capacity b = 60" "refill_rate b = 1" "tokens b = real K + (last_refill b - s)"
    "last_refill b \<le> t" "t < s + 1" "s \<le> last_refill b" "K \<le> 59"
  shows "fst (consume b 1 t) = (1 \<le> K)"
    and "capacity (snd (consume b 1 t)) = 60" and "refill_rate (snd (consume b 1 t)) = 1"
    and "last_refill (snd (consume b 1 t)) = t"
    and "tokens (snd (consume b 1 t)) = real (K - 1) + (t - s)"
proof -
  have r: "tokens (refill b t) = real K + (t - s)"
    using assms by (simp add: refill_def Let_def min_def)
  have k: "(1 \<le> real K + (t - s)) = (1 \<le> K)"
  proof (cases "1 \<le> K")
    case True then show ?thesis using assms by simp
  next
    case False then show ?thesis using assms by simp
  qed
  show "fst (consume b 1 t) = (1 \<le> K)" using r k by (simp add: consume_def Let_def)
  show "capacity (snd (consume b 1 t)) = 60" "refill_rate (snd (consume b 1 t)) = 1"
    "last_refill (snd (consume b 1 t)) = t"
    using assms by (simp_all add: consume_fields)
  show "tokens (snd (consume b 1 t)) = real (K - 1) + (t - s)"
  proof (cases "1 \<le> K")
    case True
    then show ?thesis using r k by (simp add: consume_def Let_def of_nat_diff)
  next
    case False
    then show ?thesis using r k by (simp add: consume_def Let_def)
  qed
qed


lemma burst_results_step:
  "replicate (min K (Suc n)) True @ replicate (Suc n - K) False
     = (1 \<le> K) # (replicate (min (K - 1) n) True @ replicate (n - (K - 1)) False)"
  by (cases K) simp_all

lemma allow_all_burst:
  assumes "buckets rl c = Some b" "capacity b = 60" "refill_rate b = 1"
    "tokens b = real K + (last_refill b - s)" "s \<le> last_refill b" "last_refill b < s + 1"
    "K \<le> 59" "\<forall>x \<in> set cs. fst x = c" "sorted (last_refill b # map (\<lambda>y. snd (snd y)) cs)"
    "\<forall>x \<in> set cs. snd (snd x) < s + 1"
  shows "fst (allow_all rl cs)
           = replicate (min K (length cs)) True @ replicate (length cs - K) False \<and>
         (\<exists>b'. buckets (snd (allow_all rl cs)) c = Some b' \<and> refill_rate b' = 1 \<and>
               tokens b' = real (K - length cs) + (last_refill b' - s) \<and>
               s \<le> last_refill b' \<and> last_refill b' < s + 1)"
  using assms
proof (induction cs arbitrary: rl b K)
  case Nil
  then show ?case by simp
next
  case (Cons x cs)
  obtain tc t where x: "x = (c, tc, t)" using Cons.prems(8) by (cases x) auto
  have t: "last_refill b \<le> t" "t < s + 1" using Cons.prems(9,10) x by simp_all
  note st = consume_burst_step[OF Cons.prems(2,3,4) t Cons.prems(5,7)]
  define rl' where "rl' = snd (is_allowed rl c tc t)"
  define b' where "b' = snd (consume b 1 t)"
  have ia: "fst (is_allowed rl c tc t) = (1 \<le> K)" "buckets rl' c = Some b'"
    using Cons.prems(1) st(1) by (simp_all add: is_allowed_def Let_def rl'_def b'_def)
  have s': "sorted (last_refill b' # map (\<lambda>y. snd (snd y)) cs)"
    using Cons.prems(9) x st(4) by (simp add: b'_def)
  have ih: "fst (allow_all rl' cs)
           = replicate (min (K - 1) (length cs)) True @ replicate (length cs - (K - 1)) False \<and>
         (\<exists>b''. buckets (snd (allow_all rl' cs)) c = Some b'' \<and> refill_rate b'' = 1 \<and>
               tokens b'' = real (K - 1 - length cs) + (last_refill b'' - s) \<and>
               s \<le> last_refill b'' \<and> last_refill b'' < s + 1)"
  proof (rule Cons.IH[OF ia(2)])
    show "capacity b' = 60" "refill_rate b' = 1" using st(2,3) by (simp_all add: b'_def)
    show "tokens b' = real (K - 1) + (last_refill b' - s)" using st(4,5) by (simp add: b'_def)
    show "s \<le> last_refill b'" "last_refill b' < s + 1"
      using st(4) t Cons.prems(5) by (simp_all add: b'_def)
    show "K - 1 \<le> 59" using Cons.prems(7) by simp
    show "\<forall>x \<in> set cs. fst x = c" "\<forall>x \<in> set cs. snd (snd x) < s + 1"
      using Cons.prems(8,10) by simp_all
    show "sorted (last_refill b' # map (\<lambda>y. snd (snd y)) cs)" by (rule s')
  qed
  have u: "allow_all rl (x # cs) = ((1 \<le> K) # fst (allow_all rl' cs), snd (allow_all rl' cs))"
    using ia(1) by (simp add: x Let_def rl'_def)
  have k: "K - 1 - length cs = K - length (x # cs)" by simp
  show ?case unfolding u fst_conv snd_conv k[symmetric]
    using ih burst_results_step[of K "length cs"] by simp
qed

lemma readings_times: "sorted (T # readings cs) \<Longrightarrow> sorted (T # map (\<lambda>y. snd (snd y)) cs)"
proof (induction cs arbitrary: T)
  case Nil then show ?case by simp
next
  case (Cons x cs)
  obtain c tc tn where x: "x = (c, tc, tn)" by (cases x) auto
  have a: "T \<le> tc" "tc \<le> tn" "sorted (tn # readings cs)"
    using Cons.prems x by (simp_all only: readings.simps sorted2)
  have "sorted (tn # map (\<lambda>y. snd (snd y)) cs)" using Cons.IH a(3) by blast
  moreover have "T \<le> tn" using a by simp
  ultimately show ?case using x by fastforce
qed

lemma sorted_le_last: "sorted xs \<Longrightarrow> (y::real) \<in> set xs \<Longrightarrow> y \<le> last xs"
  by (induction xs) auto

lemma readings_le_last:
  "sorted (T # readings cs) \<Longrightarrow> x \<in> set cs \<Longrightarrow> snd (snd x) \<le> last (T # readings cs)"
proof -
  assume s: "sorted (T # readings cs)" and m: "x \<in> set cs"
  have "snd (snd x) \<in> set (readings cs)" using m
  proof (induction cs)
    case Nil then show ?case by simp
  next
    case (Cons y cs)
    obtain c tc tn where y: "y = (c, tc, tn)" by (cases y) auto
    show ?case using Cons y by auto
  qed
  then have "snd (snd x) \<in> set (T # readings cs)" by simp
  then show ?thesis using s by (rule sorted_le_last[rotated])
qed

text \<open>
  Claim C5.  With \<open>requests_per_minute = 60\<close>, one client and a fresh limiter: when 61
  requests arrive on a clock that never runs backwards and the last reading is less than
  one second after the first, the first 60 are admitted, the 61st is refused, and the
  limiter then reports a strictly positive retry-after for that client.
\<close>

theorem burst_of_sixty:
  assumes "length cs = 61" and "\<forall>x \<in> set cs. fst x = c" and "sorted (readings cs)"
    and "last (readings cs) - hd (readings cs) < 1"
  shows "fst (allow_all (RateLimiter_init 60) cs) = replicate 60 True @ [False] \<and>
         (\<exists>w. get_retry_after (snd (allow_all (RateLimiter_init 60) cs)) c = Inr w \<and> 0 < w)"
proof -
  obtain x rest where cs: "cs = x # rest" and lr: "length rest = 60"
    using assms(1) by (cases cs) simp_all
  obtain t0 t1 where x: "x = (c, t0, t1)" using assms(2) cs by (cases x) auto
  have so: "t0 \<le> t1" "sorted (t1 # readings rest)"
    using assms(3) by (simp_all only: cs x readings.simps sorted2)
  have la: "last (t1 # readings rest) < t0 + 1"
    using assms(4) by (simp add: cs x)
  define b where "b = snd (consume (TokenBucket_init 60 1 t0) 1 t1)"
  define rl where "rl = snd (is_allowed (RateLimiter_init 60) c t0 t1)"
  have b: "capacity b = 60" "refill_rate b = 1" "last_refill b = t1" "tokens b = 59"
    using so(1) by (simp_all add: b_def consume_def refill_def TokenBucket_init_def Let_def min_def)
  have f: "fst (is_allowed (RateLimiter_init 60) c t0 t1)" "buckets rl c = Some b"
    using so(1) by (simp_all add: rl_def b_def is_allowed_def RateLimiter_init_def consume_def
        refill_def TokenBucket_init_def Let_def min_def)
  have ub: "\<forall>y \<in> set rest. snd (snd y) < t1 + 1"
  proof
    fix y assume "y \<in> set rest"
    then have "snd (snd y) \<le> last (t1 # readings rest)" using so(2) by (rule readings_le_last[rotated])
    then show "snd (snd y) < t1 + 1" using la so(1) by simp
  qed
  have "fst (allow_all rl rest)
           = replicate (min 59 (length rest)) True @ replicate (length rest - 59) False \<and>
         (\<exists>b'. buckets (snd (allow_all rl rest)) c = Some b' \<and> refill_rate b' = 1 \<and>
               tokens b' = real (59 - length rest) + (last_refill b' - t1) \<and>
               t1 \<le> last_refill b' \<and> last_refill b' < t1 + 1)"
  proof (rule allow_all_burst[OF f(2) b(1,2)])
    show "tokens b = real 59 + (last_refill b - t1)" using b by simp
    show "t1 \<le> last_refill b" "last_refill b < t1 + 1" using b by simp_all
    show "(59::nat) \<le> 59" by simp
    show "\<forall>x \<in> set rest. fst x = c" using assms(2) cs by simp
    show "sorted (last_refill b # map (\<lambda>y. snd (snd y)) rest)"
      using readings_times[OF so(2)] b by simp
    show "\<forall>y \<in> set rest. snd (snd y) < t1 + 1" by (rule ub)
  qed
  then obtain b' where r: "fst (allow_all rl rest) = replicate 59 True @ [False]"
    and b': "buckets (snd (allow_all rl rest)) c = Some b'" "refill_rate b' = 1"
      "tokens b' = last_refill b' - t1" "last_refill b' < t1 + 1"
    using lr by (auto simp: numeral_eq_Suc)
  have u: "allow_all (RateLimiter_init 60) cs = (True # fst (allow_all rl rest), snd (allow_all rl rest))"
    using f(1) by (simp add: cs x Let_def rl_def)
  have w: "get_retry_after (snd (allow_all rl rest)) c = Inr (1 - tokens b')" "0 < 1 - tokens b'"
    using b' by (simp_all add: get_retry_after_def get_wait_time_def)
  have "True # replicate 59 True @ [False] = replicate 60 True @ [False]"
    by (simp add: numeral_eq_Suc)
  then show ?thesis unfolding u fst_conv snd_conv r using w by auto
qed

lemma readings_replicate: "readings (replicate n (c, a, a)) = replicate (2 * n) a"
  by (induction n) simp_all

text \<open>Sixty-one requests of one client at the same instant.\<close>

theorem burst_of_sixty_witness:
  "length (replicate 61 (''client'', 0::real, 0::real)) = 61 \<and>
   sorted (readings (replicate 61 (''client'', 0, 0))) \<and>
   last (readings (replicate 61 (''client'', 0, 0))) - hd (readings (replicate 61 (''client'', 0, 0))) < 1 \<and>
   fst (allow_all (RateLimiter_init 60) (replicate 61 (''client'', 0, 0))) = replicate 60 True @ [False] \<and>
   (\<exists>w. get_retry_after (snd (allow_all (RateLimiter_init 60) (replicate 61 (''client'', 0, 0)))) ''client''
          = Inr w \<and> 0 < w)"
proof -
  have a: "length (replicate 61 (''client'', 0::real, 0::real)) = 61" by simp
  have b: "\<forall>x \<in> set (replicate 61 (''client'', 0::real, 0::real)). fst x = ''client''" by simp
  have c: "sorted (readings (replicate 61 (''client'', 0, 0)))"
    by (simp only: readings_replicate sorted_replicate)
  have d: "last (readings (replicate 61 (''client'', 0, 0))) - hd (readings (replicate 61 (''client'', 0, 0))) < 1"
    by (simp only: readings_replicate) simp
  show ?thesis using burst_of_sixty[OF a b c d] a c d by blast
qed

section \<open>Circuit breaker: failing fast, tripping and recovery\<close>

lemma tripped_eq:
  "tripped = \<lparr>failure_threshold = 3, timeout = 60, failures = 3,
              last_failure_time = Some 0, state = OPEN\<rparr>"
  by (simp add: tripped_def sap_circuit_breaker_def CircuitBreaker_init_def call_def
      on_failure_def remote_down_def Let_def)

lemma timedelta_seconds_small:
  assumes "0 \<le> d" "d < t * 1000000"
  shows "timedelta_seconds d < t"
proof -
  have "d mod 86400000000 \<le> d" using assms(1) by (simp add: zmod_le_nonneg_dividend)
  then have "(d mod 86400000000) div 1000000 \<le> d div 1000000" by (rule zdiv_mono1) simp
  moreover have "d div 1000000 < t" using assms(2) by (simp add: div_less_iff_less_mult)
  ultimately show ?thesis by (simp add: timedelta_seconds_def)
qed

text \<open>
  Claim C3, as amended.  While the breaker is open and, on a clock reading that is not
  earlier than the last failure, less than \<open>timeout\<close> seconds have passed since that
  failure, \<open>call\<close> raises a plain \<^verbatim>\<open>Exception\<close> with the message
  \<^verbatim>\<open>Circuit breaker is OPEN\<close> (the code has no class for this error); the breaker and the
  world are returned untouched for every wrapped operation, so the operation was not
  invoked.
\<close>

theorem open_fails_fast:
  assumes "state cb = OPEN" and "last_failure_time cb = Some l" and "l \<le> now"
    and "now - l < timeout cb * 1000000"
  shows "call cb func w now now_fail = (Inl (Exception ''Circuit breaker is OPEN'' []), cb, w)"
proof -
  have "timedelta_seconds (now - l) < timeout cb"
    using assms(3,4) by (intro timedelta_seconds_small) simp_all
  then have "\<not> should_attempt_reset cb now" using assms(2) by (simp add: should_attempt_reset_def)
  then show ?thesis using assms(1) by (simp add: call_def)
qed

text \<open>The tripped breaker one microsecond before its sixty seconds are over.\<close>

theorem open_fails_fast_witness:
  "state tripped = OPEN \<and> last_failure_time tripped = Some 0 \<and> (0::int) \<le> 59999999 \<and>
   59999999 - 0 < timeout tripped * 1000000 \<and>
   call tripped remote_up (3::nat) 59999999 59999999
     = (Inl (Exception ''Circuit breaker is OPEN'' []), tripped, 3)"
  using open_fails_fast[of tripped 0 59999999 remote_up 3 59999999]
  by (simp add: tripped_eq)

text \<open>
  The claim as stated covers every call made before the cooldown is over.  When the clock
  reads one second less than at the last failure, the elapsed time is minus one second,
  its \<^verbatim>\<open>seconds\<close> component is 86399, and the open breaker lets the call through: the
  operation is invoked and the breaker closes.
\<close>

theorem open_admits_when_clock_steps_back:
  "state tripped_late = OPEN \<and> last_failure_time tripped_late = Some 10000000 \<and>
   9000000 - 10000000 < timeout tripped_late * 1000000 \<and>
   call tripped_late remote_up (3::nat) 9000000 9000000
     = (Inr (), on_success (tripped_late\<lparr>state := HALF_OPEN\<rparr>), 4)"
  by (simp add: tripped_late_def sap_circuit_breaker_def CircuitBreaker_init_def call_def
      on_failure_def on_success_def remote_down_def remote_up_def should_attempt_reset_def
      timedelta_seconds_def Let_def)

text \<open>
  The parts of claim C2 that the code keeps: the third failure in a row opens a breaker
  with threshold 3, any admitted success closes it and clears the count, and a call made
  after the cooldown but less than a day after the last failure is the one trial call,
  which closes the breaker on success and reopens it, restarting the cooldown, on failure.
\<close>

lemma third_failure_opens:
  assumes "state cb = CLOSED" "failures cb = 0" "failure_threshold cb = 3"
    "f1 w0 = (Inl e1, w1)" "f2 w1 = (Inl e2, w2)" "f3 w2 = (Inl e3, w3)"
  shows "state (fst (call_all cb w0 [(f1, t1)])) = CLOSED"
    and "state (fst (call_all cb w0 [(f1, t1), (f2, t2)])) = CLOSED"
    and "state (fst (call_all cb w0 [(f1, t1), (f2, t2), (f3, t3)])) = OPEN"
    and "last_failure_time (fst (call_all cb w0 [(f1, t1), (f2, t2), (f3, t3)])) = Some t3"
    and "failures (fst (call_all cb w0 [(f1, t1), (f2, t2), (f3, t3)])) = 3"
  using assms by (simp_all add: call_def on_failure_def Let_def)

lemma success_forces_closed:
  assumes "\<not> (state cb = OPEN \<and> \<not> should_attempt_reset cb now)" "func w = (Inr r, w')"
  shows "call cb func w now now_fail = (Inr r, on_success cb, w')"
    and "failures (on_success cb) = 0" and "state (on_success cb) = CLOSED"
  using assms by (auto simp: call_def on_success_def Let_def)

lemma timedelta_seconds_within_a_day:
  assumes "0 \<le> d" "d < 86400000000"
  shows "timedelta_seconds d = d div 1000000"
  using assms by (simp add: timedelta_seconds_def)

lemma trial_after_cooldown:
  assumes "state cb = OPEN" "last_failure_time cb = Some l"
    "timeout cb * 1000000 \<le> now - l" "0 \<le> now - l" "now - l < 86400000000"
  shows "call cb func w now now_fail =
           (case func w of
              (Inr r, w') \<Rightarrow> (Inr r, on_success cb, w')
            | (Inl e, w') \<Rightarrow> (Inl e, on_failure (cb\<lparr>state := HALF_OPEN\<rparr>) now_fail, w'))"
proof -
  have "(timeout cb * 1000000) div 1000000 \<le> (now - l) div 1000000"
    using assms(3) by (rule zdiv_mono1) simp
  then have "timeout cb \<le> (now - l) div 1000000" by simp
  then have "should_attempt_reset cb now"
    using assms(2,4,5) by (simp add: should_attempt_reset_def timedelta_seconds_within_a_day)
  then show ?thesis using assms(1)
    by (auto simp: call_def Let_def on_success_def split: prod.splits sum.splits)
qed

lemma failed_trial_reopens:
  assumes "failure_threshold cb \<le> failures cb + 1"
  shows "state (on_failure (cb\<lparr>state := HALF_OPEN\<rparr>) now_fail) = OPEN"
    and "last_failure_time (on_failure (cb\<lparr>state := HALF_OPEN\<rparr>) now_fail) = Some now_fail"
  using assms by (simp_all add: on_failure_def Let_def)

text \<open>
  Claim C2 at the input where the code departs from it.  One day and five seconds after
  the third failure the cooldown of sixty seconds is long over, yet the \<^verbatim>\<open>seconds\<close>
  component of the elapsed time is 5, so the call is refused without a trial: the breaker
  stays open and the operation is not invoked.
\<close>

theorem cooldown_elapsed_still_refused:
  "state tripped = OPEN \<and> last_failure_time tripped = Some 0 \<and>
   timeout tripped * 1000000 \<le> 86405000000 - 0 \<and>
   call tripped remote_up (3::nat) 86405000000 86405000000
     = (Inl (Exception ''Circuit breaker is OPEN'' []), tripped, 3)"
  by (simp add: tripped_eq call_def should_attempt_reset_def timedelta_seconds_def)

section \<open>Accounts payable: a rejected posting\<close>

lemma call_bapi_effect:
  assumes "call_bapi env m n ps = (r, m')"
  shows "transactions m' = transactions m"
    and "company_code m' = company_code m"
    and "\<exists>rr. bapi_trace m' = bapi_trace m @ [(n, rr)] \<and>
              (case r of
                 Inl e \<Rightarrow> True
               | Inr result \<Rightarrow> rr = Inr result \<and>
                   (\<forall>msg. RETURN result = Some (ReturnDict msg) \<longrightarrow> \<not> is_error_type (m_TYPE msg)))"
  using assms
  by (auto simp: call_bapi_def Let_def split: prod.splits sum.splits option.splits
      return_field.splits if_splits)

lemma validate_data_effect:
  assumes "validate_data env m d = (v, m')"
  shows "transactions m' = transactions m" "bapi_trace m' = bapi_trace m"
    "company_code m' = company_code m"
  using assms
  by (auto simp: validate_data_def vendor_exists_def Let_def
      split: prod.splits sum.splits option.splits if_splits)

lemma rollback_and_raise_effect:
  assumes "rollback_and_raise env m e = (r, m')"
  shows "\<exists>e'. r = Inl e'" "transactions m' = transactions m"
    "\<exists>rb. bapi_trace m' = bapi_trace m @ [(''BAPI_TRANSACTION_ROLLBACK'', rb)]"
proof -
  obtain r1 m1 where c: "call_bapi env m ''BAPI_TRANSACTION_ROLLBACK'' [] = (r1, m1)"
    by (cases "call_bapi env m ''BAPI_TRANSACTION_ROLLBACK'' []") auto
  have m': "m' = m1" and r: "\<exists>e'. r = Inl e'"
    using assms c by (auto simp: rollback_and_raise_def rollback_transaction_def split: sum.splits)
  show "\<exists>e'. r = Inl e'" by (rule r)
  show "transactions m' = transactions m" using call_bapi_effect(1)[OF c] m' by simp
  show "\<exists>rb. bapi_trace m' = bapi_trace m @ [(''BAPI_TRANSACTION_ROLLBACK'', rb)]"
    using call_bapi_effect(3)[OF c] m' by auto
qed

lemma commit_effect:
  assumes "commit_transaction env m = (r, m')"
  shows "transactions m' = transactions m"
    "\<exists>rc. bapi_trace m' = bapi_trace m @ [(''BAPI_TRANSACTION_COMMIT'', rc)]"
proof -
  obtain r1 m1 where c: "call_bapi env m ''BAPI_TRANSACTION_COMMIT'' [(''WAIT'', PStr ''X'')] = (r1, m1)"
    by (cases "call_bapi env m ''BAPI_TRANSACTION_COMMIT'' [(''WAIT'', PStr ''X'')]") auto
  have m': "m' = m1"
    using assms c by (auto simp: commit_transaction_def split: sum.splits)
  show "transactions m' = transactions m" using call_bapi_effect(1)[OF c] m' by simp
  show "\<exists>rc. bapi_trace m' = bapi_trace m @ [(''BAPI_TRANSACTION_COMMIT'', rc)]"
    using call_bapi_effect(3)[OF c] m' by auto
qed

lemma parse_message_has_errors:
  "has_errors (parse_message acc msg) = (has_errors acc \<or> is_error_type (m_TYPE msg))"
  by (auto simp: parse_message_def is_error_type_def Let_def split: option.splits)

lemma foldl_parse_has_errors:
  "has_errors (foldl parse_message acc ms)
     = (has_errors acc \<or> list_ex (\<lambda>msg. is_error_type (m_TYPE msg)) ms)"
  by (induction ms arbitrary: acc) (simp_all add: parse_message_has_errors)

lemma has_errors_iff:
  "has_errors (parse_sap_return_messages (return_table result)) = has_error_message result"
  by (simp add: parse_sap_return_messages_def foldl_parse_has_errors return_table_def
      has_error_message_def is_error_type_def split: option.splits return_field.splits)


text \<open>
  Claim C1, as amended.  Whenever the remote answer to the posting call of
  \<^verbatim>\<open>AccountsPayable.create\<close> is a structured result holding a message of error or abort
  severity, \<open>create\<close> returns no document number but raises; the posting call is followed
  by exactly one rollback call; and the module's audit list is left as it was: no record
  is appended, with status failed or otherwise.
\<close>

theorem create_error_rolls_back:
  assumes "create env m d = (r, m')"
    and "(''BAPI_ACC_DOCUMENT_POST'', Inr res) \<in> set (drop (length (bapi_trace m)) (bapi_trace m'))"
    and "has_error_message res"
  shows "(\<exists>e. r = Inl e) \<and>
         (\<exists>rb. bapi_trace m' = bapi_trace m @
                  [(''BAPI_ACC_DOCUMENT_POST'', Inr res), (''BAPI_TRANSACTION_ROLLBACK'', rb)]) \<and>
         transactions m' = transactions m"
proof -
  obtain is_valid errs m1 where v: "validate_data env m d = ((is_valid, errs), m1)"
    by (cases "validate_data env m d") auto
  note v1 = validate_data_effect[OF v]
  show ?thesis
  proof (cases "is_valid")
    case False
    then have "m' = m1" using assms(1) v by (simp add: create_def)
    then show ?thesis using assms(2) v1 by simp
  next
    case True
    show ?thesis
    proof (cases "post_params env (company_code m1) d")
      case (Inl e)
      then have "m' = m1" using assms(1) v True by (simp add: create_def)
      then show ?thesis using assms(2) v1 by simp
    next
      case (Inr ps)
      obtain r2 m2 where c: "call_bapi env m1 ''BAPI_ACC_DOCUMENT_POST'' ps = (r2, m2)"
        by (cases "call_bapi env m1 ''BAPI_ACC_DOCUMENT_POST'' ps") auto
      note c2 = call_bapi_effect[OF c]
      obtain rr where t2: "bapi_trace m2 = bapi_trace m @ [(''BAPI_ACC_DOCUMENT_POST'', rr)]"
        and rr: "case r2 of Inl e \<Rightarrow> True
               | Inr result \<Rightarrow> rr = Inr result \<and>
                   (\<forall>msg. RETURN result = Some (ReturnDict msg) \<longrightarrow> \<not> is_error_type (m_TYPE msg))"
        using c2(3) v1(2) by auto
      have tx2: "transactions m2 = transactions m" using c2(1) v1(1) by simp
      have raise: ?thesis if "create env m d = rollback_and_raise env m2 e" for e
      proof -
        from that have rb: "rollback_and_raise env m2 e = (r, m')" using assms(1) by simp
        note e = rollback_and_raise_effect[OF rb]
        obtain rbr where t: "bapi_trace m' = bapi_trace m @
            [(''BAPI_ACC_DOCUMENT_POST'', rr), (''BAPI_TRANSACTION_ROLLBACK'', rbr)]"
          using e(3) t2 by auto
        have "rr = Inr res" using assms(2) t by simp
        then show ?thesis using e(1,2) t tx2 by simp
      qed
      show ?thesis
      proof (cases r2)
        case (Inl e)
        then have "create env m d = rollback_and_raise env m2 e"
          using v True Inr c by (simp add: create_def)
        then show ?thesis by (rule raise)
      next
        case (Inr result)
        have res: "rr = Inr result" using rr Inr by simp
        show ?thesis
        proof (cases "has_error_message result")
          case True
          then have "create env m d = rollback_and_raise env m2
              (Exception ''Invoice posting failed: ''
                 (errors (parse_sap_return_messages (return_table result))))"
            using v \<open>is_valid\<close> \<open>post_params env (company_code m1) d = Inr ps\<close> c Inr
            by (simp add: create_def has_errors_iff Let_def)
          then show ?thesis by (rule raise)
        next
          case False
          obtain r3 m3 where cm: "commit_transaction env m2 = (r3, m3)"
            by (cases "commit_transaction env m2") auto
          note c3 = commit_effect[OF cm]
          obtain rc where t3: "bapi_trace m3 = bapi_trace m @
              [(''BAPI_ACC_DOCUMENT_POST'', Inr result), (''BAPI_TRANSACTION_COMMIT'', rc)]"
            using c3(2) t2 res by auto
          have "\<exists>tl. bapi_trace m' = bapi_trace m3 @ tl \<and>
                  (\<forall>x \<in> set tl. fst x = ''BAPI_TRANSACTION_ROLLBACK'')"
          proof (cases r3)
            case (Inl e)
            then have rb: "rollback_and_raise env m3 e = (r, m')"
              using assms(1) v \<open>is_valid\<close> \<open>post_params env (company_code m1) d = Inr ps\<close>
                c Inr False cm
              by (simp add: create_def has_errors_iff Let_def)
            show ?thesis using rollback_and_raise_effect(3)[OF rb] by auto
          next
            case (Inr u)
            then have "bapi_trace m' = bapi_trace m3"
              using assms(1) v \<open>is_valid\<close> \<open>post_params env (company_code m1) d = Inr ps\<close>
                c \<open>r2 = Inr result\<close> False cm
              by (auto simp: create_def has_errors_iff Let_def log_transaction_def)
            then show ?thesis by simp
          qed
          then obtain tl where tl: "bapi_trace m' = bapi_trace m3 @ tl"
            "\<forall>x \<in> set tl. fst x = ''BAPI_TRANSACTION_ROLLBACK''" by blast
          have "(''BAPI_ACC_DOCUMENT_POST'', Inr res) \<in>
                  set ([(''BAPI_ACC_DOCUMENT_POST'', Inr result), (''BAPI_TRANSACTION_COMMIT'', rc)] @ tl)"
            using assms(2) tl(1) t3 by simp
          then have "res = result" using tl(2) by auto
          then show ?thesis using assms(3) False by simp
        qed
      qed
    qed
  qed
qed


lemma create_reject_eval:
  "create env_reject (AccountsPayable_init ()) invoice0
     = (Inl (Exception ''Invoice posting failed: '' [''Posting period closed'']), after_reject)"
  by (simp add: create_def validate_data_def missing_fields_def date_errors_def check_date_def
      format_sap_date_def vendor_exists_def post_params_def call_bapi_def
      rollback_and_raise_def rollback_transaction_def parse_sap_return_messages_def
      parse_message_def return_table_def truthy_str_def dflt_def Let_def
      env_reject_def invoice0_def AccountsPayable_init_def after_reject_def rejected_def
      plain_result_def)

text \<open>The amended claim in the concrete world where the posting period is closed.\<close>

theorem create_error_rolls_back_witness:
  "create env_reject (AccountsPayable_init ()) invoice0
     = (Inl (Exception ''Invoice posting failed: '' [''Posting period closed'']), after_reject) \<and>
   (''BAPI_ACC_DOCUMENT_POST'', Inr rejected)
     \<in> set (drop (length (bapi_trace (AccountsPayable_init () :: (unit, ap_data) sap_module)))
              (bapi_trace after_reject)) \<and>
   has_error_message rejected \<and>
   bapi_trace after_reject = bapi_trace (AccountsPayable_init () :: (unit, ap_data) sap_module) @
     [(''BAPI_ACC_DOCUMENT_POST'', Inr rejected), (''BAPI_TRANSACTION_ROLLBACK'', Inr plain_result)] \<and>
   transactions after_reject = transactions (AccountsPayable_init () :: (unit, ap_data) sap_module)"
proof -
  have a: "(''BAPI_ACC_DOCUMENT_POST'', Inr rejected)
     \<in> set (drop (length (bapi_trace (AccountsPayable_init () :: (unit, ap_data) sap_module)))
              (bapi_trace after_reject))"
    by (simp add: AccountsPayable_init_def after_reject_def)
  have b: "has_error_message rejected"
    by (simp add: has_error_message_def rejected_def is_error_type_def)
  show ?thesis
    using create_error_rolls_back[OF create_reject_eval a b] create_reject_eval a b
    by (simp add: AccountsPayable_init_def after_reject_def)
qed

text \<open>
  The claim as stated asks for a record with status failed in the audit list.  In the
  concrete world \<open>create\<close> raises on the error message and the audit list stays empty.
\<close>

theorem create_error_leaves_no_failed_record:
  "fst (create env_reject (AccountsPayable_init ()) invoice0)
     = Inl (Exception ''Invoice posting failed: '' [''Posting period closed'']) \<and>
   transactions (snd (create env_reject (AccountsPayable_init ()) invoice0)) = []"
  by (simp add: create_reject_eval after_reject_def)

section \<open>Accounts payable: the balance inquiry\<close>

text \<open>
  Claim C10.  Whenever the remote balance call fails, \<open>get_vendor_balance\<close> returns 0.0
  instead of raising, which is also what it returns for a vendor whose reported balance
  is zero: the caller sees the same value in both cases.
\<close>

theorem vendor_balance_hides_failure:
  assumes "fst (call_bapi env m ''BAPI_AP_ACC_GETBALANCES''
                 [(''COMPANYCODE'', PStr (company_code m)), (''VENDOR'', PStr (zfill 10 vc))]) = Inl e"
    and "fst (call_bapi env' m' ''BAPI_AP_ACC_GETBALANCES''
                 [(''COMPANYCODE'', PStr (company_code m')), (''VENDOR'', PStr (zfill 10 vc))]) = Inr res"
    and "BALANCES res = Some (Some (Num 0))"
  shows "fst (get_vendor_balance env m vc) = 0 \<and>
         fst (get_vendor_balance env m vc) = fst (get_vendor_balance env' m' vc)"
  using assms
  by (auto simp: get_vendor_balance_def py_float_def split: prod.splits sum.splits)


text \<open>A lost connection and a true balance of zero, side by side.\<close>

theorem vendor_balance_hides_failure_witness:
  "fst (call_bapi env_down ap0 ''BAPI_AP_ACC_GETBALANCES''
          [(''COMPANYCODE'', PStr (company_code ap0)), (''VENDOR'', PStr (zfill 10 ''1000''))])
     = Inl (Exception ''RFC connection lost'' []) \<and>
   fst (call_bapi env_zero ap0 ''BAPI_AP_ACC_GETBALANCES''
          [(''COMPANYCODE'', PStr (company_code ap0)), (''VENDOR'', PStr (zfill 10 ''1000''))])
     = Inr zero_balance \<and>
   BALANCES zero_balance = Some (Some (Num 0)) \<and>
   fst (get_vendor_balance env_down ap0 ''1000'') = 0 \<and>
   fst (get_vendor_balance env_down ap0 ''1000'') = fst (get_vendor_balance env_zero ap0 ''1000'')"
proof -
  have a: "fst (call_bapi env_down ap0 ''BAPI_AP_ACC_GETBALANCES''
          [(''COMPANYCODE'', PStr (company_code ap0)), (''VENDOR'', PStr (zfill 10 ''1000''))])
     = Inl (Exception ''RFC connection lost'' [])"
    by (simp add: call_bapi_def env_down_def Let_def)
  have b: "fst (call_bapi env_zero ap0 ''BAPI_AP_ACC_GETBALANCES''
          [(''COMPANYCODE'', PStr (company_code ap0)), (''VENDOR'', PStr (zfill 10 ''1000''))])
     = Inr zero_balance"
    by (simp add: call_bapi_def env_zero_def zero_balance_def Let_def)
  have c: "BALANCES zero_balance = Some (Some (Num 0))" by (simp add: zero_balance_def)
  show ?thesis using vendor_balance_hides_failure[OF a b c] a b c by blast
qed

section \<open>Invoice workflow: PO matching tolerance\<close>

text \<open>A PO total of zero makes the division raise, and the result is no match.\<close>

lemma match_zero_total:
  assumes "mm_po_read env po_no = Inr po" and "po_total_of po = 0"
  shows "\<not> is_match (fst (match_with_po env tr d po_no))"
  using assms by (simp add: match_with_po_def invoke_def Let_def lookup_failed_def split: sum.splits)

text \<open>
  Claim C7.  When the PO is read and the invoice amount converts to a number, PO matching
  declares a match exactly when the relative variance
  \<open>\<bar>po_total - invoice_amount\<bar> / po_total\<close> exists (the PO total is not zero) and is at
  most 5 percent.  In particular a PO total of 1000 matches an invoice of 1050 and does
  not match an invoice of 1051.
\<close>

theorem po_match_tolerance:
  assumes "mm_po_read env po_no = Inr po" and "amount_of env d = Inr a"
  shows "(is_match (fst (match_with_po env tr d po_no))
            \<longleftrightarrow> po_total_of po \<noteq> 0 \<and> \<bar>po_total_of po - a\<bar> / po_total_of po \<le> 5 / 100) \<and>
         (po_total_of po = 1000 \<and> a = 1050 \<longrightarrow> is_match (fst (match_with_po env tr d po_no))) \<and>
         (po_total_of po = 1000 \<and> a = 1051 \<longrightarrow> \<not> is_match (fst (match_with_po env tr d po_no)))"
proof -
  have m: "is_match (fst (match_with_po env tr d po_no))
            \<longleftrightarrow> po_total_of po \<noteq> 0 \<and> \<bar>po_total_of po - a\<bar> / po_total_of po * 100 \<le> 5"
    using assms by (simp add: match_with_po_def invoke_def Let_def lookup_failed_def)
  have e: "\<bar>po_total_of po - a\<bar> / po_total_of po * 100 \<le> 5
            \<longleftrightarrow> \<bar>po_total_of po - a\<bar> / po_total_of po \<le> 5 / 100"
    by argo
  show ?thesis unfolding m e by auto
qed

text \<open>The two boundary invoices against the PO of 10 pieces at 100.\<close>

theorem po_match_tolerance_witness:
  "mm_po_read world0 ''4500000001'' = Inr po1000 \<and>
   amount_of world0 invoice1050 = Inr 1050 \<and>
   amount_of world0 (invoice1050\<lparr>inv_amount := Some (Num 1051)\<rparr>) = Inr 1051 \<and>
   po_total_of po1000 = 1000 \<and>
   is_match (fst (match_with_po world0 [] invoice1050 ''4500000001'')) \<and>
   \<not> is_match (fst (match_with_po world0 [] (invoice1050\<lparr>inv_amount := Some (Num 1051)\<rparr>)
                       ''4500000001''))"
proof -
  have r: "mm_po_read world0 ''4500000001'' = Inr po1000" by (simp add: world0_def)
  have a: "amount_of world0 invoice1050 = Inr 1050"
    by (simp add: amount_of_def invoice1050_def py_float_def)
  have b: "amount_of world0 (invoice1050\<lparr>inv_amount := Some (Num 1051)\<rparr>) = Inr 1051"
    by (simp add: amount_of_def py_float_def)
  have t: "po_total_of po1000 = 1000" by (simp add: po_total_of_def po1000_def get0_def)
  show ?thesis
    using po_match_tolerance[OF r a, of "[]"] po_match_tolerance[OF r b, of "[]"] r a b t
    by simp
qed

section \<open>Invoice workflow: invalid invoices stop before vendor resolution\<close>












section \<open>Procure to pay: the automatic payment boundary\<close>

lemma verify_fst:
  "fst (verify_invoice_with_ai env tr request po) = fst (verify_invoice_with_ai env [] request po)"
  by (simp add: verify_invoice_with_ai_def invoke_def Let_def split: sum.splits prod.splits)

lemma verify_snd:
  "snd (verify_invoice_with_ai env tr request po) = tr @ [PoRead] \<or>
   snd (verify_invoice_with_ai env tr request po) = tr @ [PoRead, AnomalyDetect]"
  by (simp add: verify_invoice_with_ai_def invoke_def Let_def split: sum.splits prod.splits)

lemma classify_snd: "snd (classify_request env tr request) = tr @ [ClassifierPredict]"
  by (simp add: classify_request_def invoke_def split: sum.splits)

lemma execute_reaches_payment:
  assumes "mm_po_create env (po_request_of request) = Inr po"
    and "gr_items_of (materials request) = Inr items"
    and "mm_po_create_goods_receipt env po items = Inr md"
    and "fst (verify_invoice_with_ai env [] request po) = Inr True"
    and "fi_ap_create env (p2p_invoice env request po) = Inr idoc"
  shows "\<exists>vt. set vt \<subseteq> {PoRead, AnomalyDetect} \<and>
           execute env tr flow request =
             pay_and_complete env (tr @ [ClassifierPredict, PoCreate, GoodsReceipt] @ vt @ [FiApCreate])
               (flow\<lparr>workflow_id := Some (''P2P-'' @ wf_stamp env),
                     wf_documents := (wf_documents flow)(''po_number'' \<mapsto> po,
                        ''material_document'' \<mapsto> md, ''invoice_document'' \<mapsto> idoc),
                     wf_status := INVOICE_POSTED\<rparr>)
               request
               \<lparr>sum_workflow_id = ''P2P-'' @ wf_stamp env, sum_status = ''in_progress'',
                steps_completed = [''po_created'', ''goods_received'', ''invoice_posted''],
                sum_documents = [''po_number'' \<mapsto> po, ''material_document'' \<mapsto> md,
                                 ''invoice_document'' \<mapsto> idoc],
                sum_errors = [],
                sum_classification = Some (fst (classify_request env tr request))\<rparr>"
proof -
  obtain cl where c: "classify_request env tr request = (cl, tr @ [ClassifierPredict])"
    using classify_snd[of env tr request] by (cases "classify_request env tr request") auto
  obtain b tr4 where v: "verify_invoice_with_ai env (tr @ [ClassifierPredict, PoCreate, GoodsReceipt]) request po = (b, tr4)"
    by (cases "verify_invoice_with_ai env (tr @ [ClassifierPredict, PoCreate, GoodsReceipt]) request po") auto
  have b: "b = Inr True" using verify_fst[of env "tr @ [ClassifierPredict, PoCreate, GoodsReceipt]" request po] v assms(4) by simp
  obtain vt where vt: "tr4 = tr @ [ClassifierPredict, PoCreate, GoodsReceipt] @ vt" "set vt \<subseteq> {PoRead, AnomalyDetect}"
    using verify_snd[of env "tr @ [ClassifierPredict, PoCreate, GoodsReceipt]" request po] v by auto
  have "execute env tr flow request =
             pay_and_complete env (tr @ [ClassifierPredict, PoCreate, GoodsReceipt] @ vt @ [FiApCreate])
               (flow\<lparr>workflow_id := Some (''P2P-'' @ wf_stamp env),
                     wf_documents := (wf_documents flow)(''po_number'' \<mapsto> po,
                        ''material_document'' \<mapsto> md, ''invoice_document'' \<mapsto> idoc),
                     wf_status := INVOICE_POSTED\<rparr>)
               request
               \<lparr>sum_workflow_id = ''P2P-'' @ wf_stamp env, sum_status = ''in_progress'',
                steps_completed = [''po_created'', ''goods_received'', ''invoice_posted''],
                sum_documents = [''po_number'' \<mapsto> po, ''material_document'' \<mapsto> md,
                                 ''invoice_document'' \<mapsto> idoc],
                sum_errors = [],
                sum_classification = Some (fst (classify_request env tr request))\<rparr>"
    using assms(1,2,3,5) c v b vt(1)
    by (simp add: execute_def create_purchase_order_def post_goods_receipt_def post_invoice_def
        invoke_def Let_def)
  then show ?thesis using vt(2) by blast
qed


text \<open>
  Both sides of the boundary in a run whose other steps succeed, the outcomes of those
  steps being named.
\<close>

lemma boundary_when_steps_succeed:
  assumes "mm_po_create env (po_request_of request) = Inr po"
    and "gr_items_of (materials request) = Inr items"
    and "mm_po_create_goods_receipt env po items = Inr md"
    and "fst (verify_invoice_with_ai env [] request po) = Inr True"
    and "fi_ap_create env (p2p_invoice env request po) = Inr idoc"
    and "execute env tr flow request = (sm, flow', tr')"
  shows "(total_amount request = 10000 \<and> urgency request = ''normal'' \<longrightarrow>
            should_auto_pay request \<and> ProcessPayment \<in> set (drop (length tr) tr') \<and>
            (case fi_ap_process_payment env (vendor request) 10000 ''T'' of
               Inr pay \<Rightarrow> sum_status sm = ''completed'' \<and>
                           sum_documents sm ''payment_document'' = Some pay \<and>
                           ''payment_processed'' \<in> set (steps_completed sm)
             | Inl e \<Rightarrow> sum_status sm = ''failed'' \<and>
                         sum_documents sm ''payment_document'' = None)) \<and>
         (total_amount request = 10001 \<longrightarrow>
            \<not> should_auto_pay request \<and> ProcessPayment \<notin> set (drop (length tr) tr') \<and>
            sum_status sm = ''completed'' \<and> sum_documents sm ''payment_document'' = None \<and>
            ''payment_processed'' \<notin> set (steps_completed sm) \<and> wf_status flow' = WF_COMPLETED)"
proof -
  obtain vt where vt: "set vt \<subseteq> {PoRead, AnomalyDetect}"
    and ex: "execute env tr flow request =
             pay_and_complete env (tr @ [ClassifierPredict, PoCreate, GoodsReceipt] @ vt @ [FiApCreate])
               (flow\<lparr>workflow_id := Some (''P2P-'' @ wf_stamp env),
                     wf_documents := (wf_documents flow)(''po_number'' \<mapsto> po,
                        ''material_document'' \<mapsto> md, ''invoice_document'' \<mapsto> idoc),
                     wf_status := INVOICE_POSTED\<rparr>)
               request
               \<lparr>sum_workflow_id = ''P2P-'' @ wf_stamp env, sum_status = ''in_progress'',
                steps_completed = [''po_created'', ''goods_received'', ''invoice_posted''],
                sum_documents = [''po_number'' \<mapsto> po, ''material_document'' \<mapsto> md,
                                 ''invoice_document'' \<mapsto> idoc],
                sum_errors = [],
                sum_classification = Some (fst (classify_request env tr request))\<rparr>"
    using execute_reaches_payment[OF assms(1-5), of tr flow] by blast
  have np: "ProcessPayment \<notin> set vt" using vt by auto
  have hi: ?thesis if "total_amount request = 10001"
  proof -
    have n: "\<not> should_auto_pay request" using that by (simp add: should_auto_pay_def)
    show ?thesis using assms(6) ex n np that
      by (auto simp: pay_and_complete_def)
  qed
  have lo: ?thesis if t: "total_amount request = 10000" and u: "urgency request = ''normal''"
  proof -
    have y: "should_auto_pay request" using t u by (simp add: should_auto_pay_def)
    show ?thesis
    proof (cases "fi_ap_process_payment env (vendor request) 10000 ''T''")
      case (Inl e)
      then show ?thesis using assms(6) ex y t u
        by (auto simp: pay_and_complete_def process_payment_def invoke_def p2p_failed_def)
    next
      case (Inr pay)
      then show ?thesis using assms(6) ex y t u
        by (auto simp: pay_and_complete_def process_payment_def invoke_def)
    qed
  qed
  show ?thesis
  proof (cases "total_amount request = 10001")
    case True then show ?thesis by (rule hi)
  next
    case False
    show ?thesis
    proof (cases "total_amount request = 10000 \<and> urgency request = ''normal''")
      case True then show ?thesis using lo by blast
    next
      case f: False
      then show ?thesis using False by blast
    qed
  qed
qed

text \<open>
  A request that does not qualify for automatic payment never reaches the payment
  collaborator, whatever else happens in the run.
\<close>

lemma no_payment_unless_qualified:
  assumes "\<not> should_auto_pay request" and "execute env tr flow request = (sm, flow', tr')"
  shows "ProcessPayment \<notin> set (drop (length tr) tr') \<and>
         sum_documents sm ''payment_document'' = None \<and>
         ''payment_processed'' \<notin> set (steps_completed sm)"
proof -
  obtain cl where c: "classify_request env tr request = (cl, tr @ [ClassifierPredict])"
    by (cases "classify_request env tr request")
       (simp add: classify_request_def invoke_def split: sum.splits)
  obtain b tr4 where v: "verify_invoice_with_ai env (tr @ [ClassifierPredict, PoCreate, GoodsReceipt]) request
                           (case mm_po_create env (po_request_of request) of Inr p \<Rightarrow> p | Inl e \<Rightarrow> []) = (b, tr4)"
    by (cases "verify_invoice_with_ai env (tr @ [ClassifierPredict, PoCreate, GoodsReceipt]) request
                           (case mm_po_create env (po_request_of request) of Inr p \<Rightarrow> p | Inl e \<Rightarrow> [])") auto
  have t4: "tr4 = tr @ [ClassifierPredict, PoCreate, GoodsReceipt, PoRead] \<or>
            tr4 = tr @ [ClassifierPredict, PoCreate, GoodsReceipt, PoRead, AnomalyDetect]"
    using v by (auto simp: verify_invoice_with_ai_def invoke_def Let_def split: sum.splits prod.splits if_splits)
  show ?thesis
    using assms c v t4
    by (auto simp: execute_def create_purchase_order_def post_goods_receipt_def post_invoice_def
        pay_and_complete_def p2p_failed_def invoke_def Let_def
        split: sum.splits prod.splits if_splits)
qed

text \<open>
  Claim C9, as amended.  A request of 10001 never has its payment step invoked and never
  has a \<^verbatim>\<open>payment_document\<close> among its documents; absent other failures the workflow
  still reaches \<^verbatim>\<open>completed\<close>.  A request of 10000 with urgency \<^verbatim>\<open>normal\<close> triggers
  automatic payment in a run without other failures: the payment step is invoked, and
  when the payment returns, its document is recorded as \<^verbatim>\<open>payment_document\<close> and the
  status is \<^verbatim>\<open>completed\<close> (when the payment raises, the status is \<^verbatim>\<open>failed\<close>).
\<close>

theorem auto_pay_boundary:
  assumes "execute env tr flow request = (sm, flow', tr')"
  shows "(total_amount request = 10000 \<and> urgency request = ''normal'' \<and> steps_succeed env request \<longrightarrow>
            ProcessPayment \<in> set (drop (length tr) tr') \<and>
            (case fi_ap_process_payment env (vendor request) 10000 ''T'' of
               Inr pay \<Rightarrow> sum_status sm = ''completed'' \<and>
                           sum_documents sm ''payment_document'' = Some pay \<and>
                           ''payment_processed'' \<in> set (steps_completed sm)
             | Inl e \<Rightarrow> sum_status sm = ''failed'' \<and>
                         sum_documents sm ''payment_document'' = None)) \<and>
         (total_amount request = 10001 \<longrightarrow>
            ProcessPayment \<notin> set (drop (length tr) tr') \<and>
            sum_documents sm ''payment_document'' = None \<and>
            ''payment_processed'' \<notin> set (steps_completed sm) \<and>
            (steps_succeed env request \<longrightarrow>
               sum_status sm = ''completed'' \<and> wf_status flow' = WF_COMPLETED))"
proof -
  have ok: "\<exists>po items md idoc.
              mm_po_create env (po_request_of request) = Inr po \<and>
              gr_items_of (materials request) = Inr items \<and>
              mm_po_create_goods_receipt env po items = Inr md \<and>
              fst (verify_invoice_with_ai env [] request po) = Inr True \<and>
              fi_ap_create env (p2p_invoice env request po) = Inr idoc"
    if "steps_succeed env request"
    using that by (auto simp: steps_succeed_def split: sum.splits)
  have lo: "ProcessPayment \<in> set (drop (length tr) tr') \<and>
            (case fi_ap_process_payment env (vendor request) 10000 ''T'' of
               Inr pay \<Rightarrow> sum_status sm = ''completed'' \<and>
                           sum_documents sm ''payment_document'' = Some pay \<and>
                           ''payment_processed'' \<in> set (steps_completed sm)
             | Inl e \<Rightarrow> sum_status sm = ''failed'' \<and>
                         sum_documents sm ''payment_document'' = None)"
    if q1: "total_amount request = 10000" and q2: "urgency request = ''normal''"
      and q3: "steps_succeed env request"
  proof -
    obtain po items md idoc where h: "mm_po_create env (po_request_of request) = Inr po"
      "gr_items_of (materials request) = Inr items"
      "mm_po_create_goods_receipt env po items = Inr md"
      "fst (verify_invoice_with_ai env [] request po) = Inr True"
      "fi_ap_create env (p2p_invoice env request po) = Inr idoc"
      using ok[OF q3] by blast
    show ?thesis using boundary_when_steps_succeed[OF h assms] q1 q2 by blast
  qed
  have hi1: "ProcessPayment \<notin> set (drop (length tr) tr') \<and>
             sum_documents sm ''payment_document'' = None \<and>
             ''payment_processed'' \<notin> set (steps_completed sm)"
    if "total_amount request = 10001"
  proof -
    have "\<not> should_auto_pay request" using that by (simp add: should_auto_pay_def)
    then show ?thesis using assms by (rule no_payment_unless_qualified)
  qed
  have hi2: "sum_status sm = ''completed'' \<and> wf_status flow' = WF_COMPLETED"
    if q4: "total_amount request = 10001" and q5: "steps_succeed env request"
  proof -
    obtain po items md idoc where h: "mm_po_create env (po_request_of request) = Inr po"
      "gr_items_of (materials request) = Inr items"
      "mm_po_create_goods_receipt env po items = Inr md"
      "fst (verify_invoice_with_ai env [] request po) = Inr True"
      "fi_ap_create env (p2p_invoice env request po) = Inr idoc"
      using ok[OF q5] by blast
    show ?thesis using boundary_when_steps_succeed[OF h assms] q4 by blast
  qed
  show ?thesis using lo hi1 hi2 by blast
qed

text \<open>Both sides of the boundary in the concrete world.\<close>

theorem auto_pay_boundary_witness:
  "total_amount request10000 = 10000 \<and> urgency request10000 = ''normal'' \<and>
   steps_succeed world_p2p request10000 \<and>
   total_amount request10001 = 10001 \<and> steps_succeed world_p2p request10001 \<and>
   sum_status (fst (execute world_p2p [] ProcureToPayWorkflow_init request10000)) = ''completed'' \<and>
   sum_documents (fst (execute world_p2p [] ProcureToPayWorkflow_init request10000))
     ''payment_document'' = Some ''1500000001'' \<and>
   ProcessPayment \<in> set (snd (snd (execute world_p2p [] ProcureToPayWorkflow_init request10000))) \<and>
   sum_status (fst (execute world_p2p [] ProcureToPayWorkflow_init request10001)) = ''completed'' \<and>
   sum_documents (fst (execute world_p2p [] ProcureToPayWorkflow_init request10001))
     ''payment_document'' = None \<and>
   ProcessPayment \<notin> set (snd (snd (execute world_p2p [] ProcureToPayWorkflow_init request10001)))"
proof -
  have v: "fst (verify_invoice_with_ai world_p2p [] request10000 ''4500000001'') = Inr True"
    "fst (verify_invoice_with_ai world_p2p [] request10001 ''4500000001'') = Inr True"
    by (simp_all add: verify_invoice_with_ai_def invoke_def Let_def po_total_of_def get0_def
        world_p2p_def world0_def po10000_def request10001_def request10000_def)
  have g: "gr_items_of (materials request10000) = Inr [item0]"
    "gr_items_of (materials request10001) = Inr [item0]"
    by (simp_all add: request10001_def request10000_def item0_def dflt_def)
  have s: "steps_succeed world_p2p request10000" "steps_succeed world_p2p request10001"
    using v g by (simp_all add: steps_succeed_def world_p2p_def world0_def)
  have p: "fi_ap_process_payment world_p2p (vendor request10000) 10000 ''T'' = Inr ''1500000001''"
    by (simp add: world_p2p_def world0_def)
  have t: "total_amount request10000 = 10000" "urgency request10000 = ''normal''"
    "total_amount request10001 = 10001"
    by (simp_all add: request10001_def request10000_def)
  have x: "execute world_p2p [] ProcureToPayWorkflow_init r =
             (fst (execute world_p2p [] ProcureToPayWorkflow_init r),
              fst (snd (execute world_p2p [] ProcureToPayWorkflow_init r)),
              snd (snd (execute world_p2p [] ProcureToPayWorkflow_init r)))" for r
    by simp
  note lo = auto_pay_boundary[OF x, of request10000]
  note hi = auto_pay_boundary[OF x, of request10001]
  show ?thesis using lo hi s p t by simp
qed

text \<open>
  The claim as stated promises the payment for every request of 10000 with urgency
  \<^verbatim>\<open>normal\<close>.  When the creation of the purchase order is rejected, the run of such a
  request ends \<^verbatim>\<open>failed\<close> after two calls: the payment step is never invoked and no
  \<^verbatim>\<open>payment_document\<close> is recorded.
\<close>

theorem rejected_po_never_pays:
  "total_amount request10000 = 10000 \<and> urgency request10000 = ''normal'' \<and>
   sum_status (fst (execute world_no_po [] ProcureToPayWorkflow_init request10000)) = ''failed'' \<and>
   snd (snd (execute world_no_po [] ProcureToPayWorkflow_init request10000))
     = [ClassifierPredict, PoCreate] \<and>
   sum_documents (fst (execute world_no_po [] ProcureToPayWorkflow_init request10000))
     ''payment_document'' = None"
  by (simp add: execute_def classify_request_def create_purchase_order_def p2p_failed_def
      invoke_def Let_def world_no_po_def world_p2p_def world0_def request10000_def)

end
